theory Spec2Isabelle
  imports Main
begin

section \<open>Data model of the mediator (raiden/transfer/mediated\_transfer/mediator.py)\<close>

text \<open>
  The mediator state machine and the transport of a Raiden node, as functions on
  explicit state. A Python exception is the left summand of the result; an \<open>assert\<close>
  that fails is \<open>AssertionError\<close>, a subscript that fails \<open>IndexError\<close> or
  \<open>KeyError\<close>, an attribute of \<open>None\<close> \<open>AttributeError\<close>.

  Addresses, secrets, hashes and the various identifiers are opaque values that the
  mediator only compares for equality; they are natural numbers here. Block numbers,
  timeouts and token amounts are Python integers. The channel map holds one channel
  object under each key.
\<close>

type_synonym Address = nat
type_synonym Secret = nat
type_synonym SecretHash = nat
type_synonym ChannelID = nat
type_synonym PaymentID = nat
type_synonym MessageID = nat
type_synonym TokenAddress = nat
type_synonym UnlockProof = nat
type_synonym prng = nat

datatype exception =
  AssertionError | AttributeError | IndexError | KeyError | ValueError
  | InvalidAddress | InvalidLocksRoot | InvalidNonce | TransferWhenClosed
  | TransferUnwanted | UnknownAddress | UnknownTokenAddress | OtherException

record Lock =
  amount :: int
  expiration :: int
  secrethash :: SecretHash

record BalanceProof =
  channel_identifier :: ChannelID
  sender :: Address
  nonce :: int
  transferred_amount :: int
  locked_amount :: int
  locksroot :: nat

text \<open>
  \<open>LockedTransferUnsignedState\<close> and \<open>LockedTransferSignedState\<close> carry the same
  fields and differ in their class only; the class is the flag \<open>signed\<close>, which
  \<open>isinstance\<close> reads.
\<close>

record LockedTransferState =
  balance_proof :: BalanceProof
  lock :: Lock
  payment_identifier :: PaymentID
  initiator :: Address
  target :: Address
  token :: TokenAddress
  signed :: bool

record MediationPairState =
  payer_transfer :: LockedTransferState
  payee_address :: Address
  payee_transfer :: LockedTransferState
  payer_state :: string
  payee_state :: string

record MediatorTransferState =
  secrethash :: SecretHash
  secret :: "Secret option"
  transfers_pair :: "MediationPairState list"

record RouteState =
  node_address :: Address
  channel_identifier :: ChannelID

text \<open>
  The channel classes are declared in raiden/transfer/state.py, outside the files
  verified here. The records hold the attributes that mediator.py reads; what
  else a channel or a channel end carries is the field \<open>channel_rest\<close> or
  \<open>end_rest\<close> of an arbitrary type \<open>'h\<close>, which only the channel module looks at.
\<close>

record 'h NettingChannelEndState =
  address :: Address
  secrethashes_to_lockedlocks :: "SecretHash \<rightharpoonup> Lock"
  end_rest :: 'h

record 'h NettingChannelState =
  "identifier" :: ChannelID
  token_address :: TokenAddress
  token_network_identifier :: nat
  reveal_timeout :: int
  settle_timeout :: int
  our_state :: "'h NettingChannelEndState"
  partner_state :: "'h NettingChannelEndState"
  channel_rest :: 'h

type_synonym 'h ChannelMap = "ChannelID \<rightharpoonup> 'h NettingChannelState"

text \<open>
  The events the mediator builds itself have their own constructors.
  \<open>SendMediatedTransfer\<close> is built by \<open>channel.send_lockedtransfer\<close> and read back
  through its attribute \<open>transfer\<close>. Every other event that the channel module builds
  (refund transfers, unlock messages, expired-lock messages, the events of its
  handlers) is a \<open>ChannelEvent\<close> with an opaque content.
\<close>

datatype event =
  SendMediatedTransfer LockedTransferState
  | SendRevealSecret Address ChannelID MessageID Secret
  | EventUnlockSuccess PaymentID SecretHash
  | EventUnlockFailed PaymentID SecretHash string
  | EventUnlockClaimSuccess PaymentID SecretHash
  | EventUnlockClaimFailed PaymentID SecretHash string
  | SendProcessed Address ChannelID MessageID
  | ContractSendChannelBatchUnlock nat ChannelID "UnlockProof list"
  | ContractSendSecretReveal int Secret
  | ChannelEvent nat

text \<open>
  The state changes, with the attributes that mediator.py reads from each of them:
  \<open>routes\<close>, \<open>from_route\<close> and \<open>from_transfer\<close> of \<open>ActionInitMediator\<close>,
  \<open>block_number\<close> of \<open>Block\<close>, \<open>transfer\<close> and \<open>routes\<close> of
  \<open>ReceiveTransferRefund\<close>, \<open>secret\<close>, \<open>secrethash\<close> and \<open>sender\<close> of the two secret
  reveals, \<open>message_identifier\<close> and \<open>balance_proof\<close> of \<open>ReceiveUnlock\<close>,
  \<open>from_route\<close> of \<open>ReceiveLockExpired\<close>. The file mediated\_transfer/state\_change.py
  declares some of these classes as an earlier revision had them (without
  \<open>secrethash\<close>, \<open>transfer\<close> or \<open>ReceiveLockExpired\<close>); the constructors follow the
  attributes that the mediator uses. \<open>OtherStateChange\<close> is any state change of another
  class.
\<close>

datatype state_change =
  ActionInitMediator "RouteState list" RouteState LockedTransferState
  | Block int
  | ReceiveTransferRefund LockedTransferState "RouteState list"
  | ReceiveSecretReveal Secret SecretHash Address
  | ContractReceiveSecretReveal Secret SecretHash Address
  | ReceiveUnlock MessageID BalanceProof
  | ReceiveLockExpired RouteState
  | OtherStateChange

record TransitionResult =
  new_state :: "MediatorTransferState option"
  events :: "event list"

subsection \<open>The modules that mediator.py imports\<close>

text \<open>
  \<open>raiden.transfer.channel\<close>, \<open>raiden.constants\<close>, \<open>raiden.settings\<close> and the helper
  \<open>message_identifier_from_prng\<close> are outside the files verified here. Their functions
  and constants are the fields of the record below, and every function of the mediator
  takes the record as its first argument. A function of the channel module that
  mutates the channel it is given returns the channel after the mutation. The functions
  are total: none of them is assumed to raise.
\<close>

record 'h ChannelModule =
  MAXIMUM_PENDING_TRANSFERS :: int
  DEFAULT_NUMBER_OF_CONFIRMATIONS_BLOCK :: int
  CHANNEL_STATE_OPENED :: string
  CHANNEL_IDENTIFIER_GLOBAL_QUEUE :: ChannelID
  message_identifier_from_prng :: "prng \<Rightarrow> MessageID \<times> prng"
  channel_get_number_of_pending_transfers :: "'h NettingChannelEndState \<Rightarrow> int"
  channel_get_distributable ::
    "'h NettingChannelEndState \<Rightarrow> 'h NettingChannelEndState \<Rightarrow> int"
  channel_get_status :: "'h NettingChannelState \<Rightarrow> string"
  channel_is_valid_amount :: "'h NettingChannelEndState \<Rightarrow> int \<Rightarrow> bool"
  channel_is_secret_known :: "'h NettingChannelEndState \<Rightarrow> SecretHash \<Rightarrow> bool"
  channel_get_secret :: "'h NettingChannelEndState \<Rightarrow> SecretHash \<Rightarrow> Secret"
  channel_get_lock :: "'h NettingChannelEndState \<Rightarrow> SecretHash \<Rightarrow> Lock option"
  channel_compute_proof_for_lock ::
    "'h NettingChannelEndState \<Rightarrow> Secret \<Rightarrow> Lock option \<Rightarrow> UnlockProof"
  channel_register_secret ::
    "'h NettingChannelState \<Rightarrow> Secret \<Rightarrow> SecretHash \<Rightarrow> 'h NettingChannelState"
  channel_register_onchain_secret ::
    "'h NettingChannelState \<Rightarrow> Secret \<Rightarrow> SecretHash \<Rightarrow> 'h NettingChannelState"
  channel_delete_secrethash_endstate ::
    "'h NettingChannelEndState \<Rightarrow> SecretHash \<Rightarrow> 'h NettingChannelEndState"
  channel_send_lockedtransfer ::
    "'h NettingChannelState \<Rightarrow> Address \<Rightarrow> Address \<Rightarrow> int \<Rightarrow> MessageID \<Rightarrow> PaymentID
      \<Rightarrow> int \<Rightarrow> SecretHash \<Rightarrow> LockedTransferState \<times> 'h NettingChannelState"
  channel_send_refundtransfer ::
    "'h NettingChannelState \<Rightarrow> Address \<Rightarrow> Address \<Rightarrow> int \<Rightarrow> MessageID \<Rightarrow> PaymentID
      \<Rightarrow> int \<Rightarrow> SecretHash \<Rightarrow> event \<times> 'h NettingChannelState"
  channel_send_unlock ::
    "'h NettingChannelState \<Rightarrow> PaymentID \<Rightarrow> MessageID \<Rightarrow> Secret \<Rightarrow> SecretHash
      \<Rightarrow> event \<times> 'h NettingChannelState"
  channel_events_for_expired_lock ::
    "'h NettingChannelState \<Rightarrow> Lock \<Rightarrow> prng \<Rightarrow> event \<times> 'h NettingChannelState \<times> prng"
  channel_handle_receive_lockedtransfer ::
    "'h NettingChannelState \<Rightarrow> LockedTransferState
      \<Rightarrow> (bool \<times> event list) \<times> 'h NettingChannelState"
  channel_handle_refundtransfer ::
    "LockedTransferState \<Rightarrow> 'h NettingChannelState \<Rightarrow> state_change
      \<Rightarrow> (bool \<times> event list) \<times> 'h NettingChannelState"
  channel_handle_unlock ::
    "'h NettingChannelState \<Rightarrow> state_change
      \<Rightarrow> (bool \<times> event list) \<times> 'h NettingChannelState"
  channel_handle_receive_lock_expired ::
    "'h NettingChannelState option \<Rightarrow> state_change
      \<Rightarrow> event list \<times> 'h NettingChannelState option"

section \<open>The functions of mediator.py\<close>

definition STATE_SECRET_KNOWN :: "string list" where
  "STATE_SECRET_KNOWN =
    [''payee_secret_revealed'', ''payee_contract_unlock'', ''payee_balance_proof'',
     ''payer_secret_revealed'', ''payer_waiting_close'', ''payer_waiting_unlock'',
     ''payer_balance_proof'']"

definition STATE_TRANSFER_PAID :: "string list" where
  "STATE_TRANSFER_PAID =
    [''payee_contract_unlock'', ''payee_balance_proof'', ''payer_balance_proof'']"

definition STATE_TRANSFER_FINAL :: "string list" where
  "STATE_TRANSFER_FINAL =
    [''payee_contract_unlock'', ''payee_balance_proof'', ''payee_expired'',
     ''payer_balance_proof'', ''payer_expired'']"

text \<open>
  Modelled from the spec: the class attributes \<open>MediationPairState.valid_payer_states\<close>
  and \<open>valid_payee_states\<close> (state.py is missing), as the data model of the
  specification lists the states of either side.
\<close>

definition valid_payer_states :: "string list" where
  "valid_payer_states =
    [''payer_pending'', ''payer_secret_revealed'', ''payer_waiting_close'',
     ''payer_waiting_unlock'', ''payer_balance_proof'', ''payer_expired'']"

definition valid_payee_states :: "string list" where
  "valid_payee_states =
    [''payee_pending'', ''payee_secret_revealed'', ''payee_contract_unlock'',
     ''payee_balance_proof'', ''payee_expired'']"

text \<open>
  Modelled from the spec: the constructor \<open>MediationPairState(payer_transfer,
  payee_address, payee_transfer)\<close> (state.py is missing); a new pair starts with both
  sides pending.
\<close>

definition new_MediationPairState ::
  "LockedTransferState \<Rightarrow> Address \<Rightarrow> LockedTransferState \<Rightarrow> MediationPairState" where
  "new_MediationPairState payer addr payee =
    \<lparr>payer_transfer = payer, payee_address = addr, payee_transfer = payee,
     payer_state = ''payer_pending'', payee_state = ''payee_pending''\<rparr>"

text \<open>
  Modelled from the spec: the property \<open>MediationPairState.payer_address\<close> (state.py is
  missing); the payer is the peer that sent the signed payer transfer.
\<close>

definition payer_address :: "MediationPairState \<Rightarrow> Address" where
  "payer_address pair = sender (balance_proof (payer_transfer pair))"

text \<open>
  Modelled from the spec: \<open>secret_registry.events_for_onchain_secretreveal\<close>
  (raiden/transfer/secret\_registry.py is missing); the specification has the mediator
  emit \<open>ContractSendSecretReveal\<close> for the selected pair.
\<close>

definition secret_registry_events_for_onchain_secretreveal ::
  "'h NettingChannelState \<Rightarrow> Secret \<Rightarrow> int \<Rightarrow> event list" where
  "secret_registry_events_for_onchain_secretreveal channel_state secret' expiration' =
    [ContractSendSecretReveal expiration' secret']"

definition is_lock_valid :: "int \<Rightarrow> int \<Rightarrow> bool" where
  "is_lock_valid expiration' block_number \<longleftrightarrow> block_number \<le> expiration'"

text \<open>
  The message that \<open>is_safe_to_wait\<close> formats is kept as the values it interpolates:
  reveal timeout, lock timeout, lock expiration and block number.
\<close>

datatype wait_msg = LockTimeoutUnsafe int int int int

definition is_safe_to_wait :: "int \<Rightarrow> int \<Rightarrow> int \<Rightarrow> exception + (bool \<times> wait_msg option)" where
  "is_safe_to_wait lock_expiration reveal_timeout' block_number =
    (if \<not> block_number > 0 then Inl AssertionError
     else if \<not> reveal_timeout' > 0 then Inl AssertionError
     else if \<not> lock_expiration > reveal_timeout' then Inl AssertionError
     else
       let lock_timeout = lock_expiration - block_number in
       if lock_timeout > reveal_timeout' then Inr (True, None)
       else Inr (False,
         Some (LockTimeoutUnsafe reveal_timeout' lock_timeout lock_expiration block_number)))"

definition is_channel_usable ::
  "'h ChannelModule \<Rightarrow> 'h NettingChannelState \<Rightarrow> int \<Rightarrow> int \<Rightarrow> bool" where
  "is_channel_usable ch candidate_channel_state transfer_amount lock_timeout =
    (let pending_transfers =
           channel_get_number_of_pending_transfers ch (our_state candidate_channel_state);
         distributable =
           channel_get_distributable ch (our_state candidate_channel_state)
             (partner_state candidate_channel_state)
     in lock_timeout > 0 \<and>
        channel_get_status ch candidate_channel_state = CHANNEL_STATE_OPENED ch \<and>
        settle_timeout candidate_channel_state \<ge> lock_timeout \<and>
        reveal_timeout candidate_channel_state < lock_timeout \<and>
        pending_transfers < MAXIMUM_PENDING_TRANSFERS ch \<and>
        transfer_amount \<le> distributable \<and>
        channel_is_valid_amount ch (our_state candidate_channel_state) transfer_amount)"

definition is_send_transfer_almost_equal ::
  "LockedTransferState \<Rightarrow> LockedTransferState \<Rightarrow> bool" where
  "is_send_transfer_almost_equal send received \<longleftrightarrow>
    \<not> signed send \<and>
    signed received \<and>
    payment_identifier send = payment_identifier received \<and>
    token send = token received \<and>
    amount (lock send) = amount (lock received) \<and>
    expiration (lock send) = expiration (lock received) \<and>
    Lock.secrethash (lock send) = Lock.secrethash (lock received) \<and>
    initiator send = initiator received \<and>
    target send = target received"

text \<open>
  A Python dictionary keeps its keys in the order of their first insertion; a later
  insertion under the same key replaces the value in place.
\<close>

fun dict_set :: "('k \<times> 'v) list \<Rightarrow> 'k \<Rightarrow> 'v \<Rightarrow> ('k \<times> 'v) list" where
  "dict_set [] k v = [(k, v)]"
| "dict_set ((k', v') # d) k v =
    (if k' = k then (k, v) # d else (k', v') # dict_set d k v)"

fun dict_del :: "('k \<times> 'v) list \<Rightarrow> 'k \<Rightarrow> ('k \<times> 'v) list" where
  "dict_del [] k = []"
| "dict_del ((k', v') # d) k = (if k' = k then d else (k', v') # dict_del d k)"

fun filter_used_routes_loop ::
  "MediationPairState list \<Rightarrow> (ChannelID \<times> RouteState) list \<Rightarrow> (ChannelID \<times> RouteState) list"
  where
  "filter_used_routes_loop [] channelid_to_route = channelid_to_route"
| "filter_used_routes_loop (pair # rest) channelid_to_route =
    (let d1 = dict_del channelid_to_route
                (BalanceProof.channel_identifier (balance_proof (payer_transfer pair)));
         d2 = dict_del d1
                (BalanceProof.channel_identifier (balance_proof (payee_transfer pair)))
     in filter_used_routes_loop rest d2)"

definition filter_used_routes ::
  "MediationPairState list \<Rightarrow> RouteState list \<Rightarrow> RouteState list" where
  "filter_used_routes transfers_pair' routes =
    (let channelid_to_route =
           foldl (\<lambda>d r. dict_set d (RouteState.channel_identifier r) r) [] routes
     in map snd (filter_used_routes_loop transfers_pair' channelid_to_route))"

definition get_payee_channel ::
  "'h ChannelMap \<Rightarrow> MediationPairState \<Rightarrow> exception + 'h NettingChannelState" where
  "get_payee_channel channelidentifiers_to_channels transfer_pair =
    (case channelidentifiers_to_channels
            (BalanceProof.channel_identifier (balance_proof (payee_transfer transfer_pair))) of
       None \<Rightarrow> Inl AssertionError
     | Some payee_channel \<Rightarrow> Inr payee_channel)"

definition get_payer_channel ::
  "'h ChannelMap \<Rightarrow> MediationPairState \<Rightarrow> exception + 'h NettingChannelState" where
  "get_payer_channel channelidentifiers_to_channels transfer_pair =
    (case channelidentifiers_to_channels
            (BalanceProof.channel_identifier (balance_proof (payer_transfer transfer_pair))) of
       None \<Rightarrow> Inl AssertionError
     | Some payer_channel \<Rightarrow> Inr payer_channel)"

definition get_pending_transfer_pairs :: "MediationPairState list \<Rightarrow> MediationPairState list"
  where
  "get_pending_transfer_pairs transfers_pair' =
    filter (\<lambda>pair. payee_state pair \<notin> set STATE_TRANSFER_FINAL \<or>
                   payer_state pair \<notin> set STATE_TRANSFER_FINAL) transfers_pair'"

definition sanity_check :: "MediatorTransferState \<Rightarrow> exception + unit" where
  "sanity_check state =
    (let all_transfers_states =
           map payee_state (transfers_pair state) @ map payer_state (transfers_pair state)
     in
     if list_ex (\<lambda>s. s \<in> set STATE_TRANSFER_PAID) all_transfers_states \<and>
        secret state = None
     then Inl AssertionError
     else if (case transfers_pair state of
                [] \<Rightarrow> False
              | first_pair # _ \<Rightarrow>
                  MediatorTransferState.secrethash state \<noteq>
                  Lock.secrethash (lock (payer_transfer first_pair)))
     then Inl AssertionError
     else if \<not> list_all
                 (\<lambda>pair. is_send_transfer_almost_equal (payee_transfer pair) (payer_transfer pair) \<and>
                         payer_state pair \<in> set valid_payer_states \<and>
                         payee_state pair \<in> set valid_payee_states)
                 (transfers_pair state)
     then Inl AssertionError
     else if \<not> list_all
                 (\<lambda>(original, refund).
                    is_send_transfer_almost_equal (payee_transfer original) (payer_transfer refund) \<and>
                    payee_address original = payer_address refund \<and>
                    expiration (lock (payee_transfer original)) =
                    expiration (lock (payer_transfer refund)))
                 (zip (butlast (transfers_pair state)) (tl (transfers_pair state)))
     then Inl AssertionError
     else Inr ())"

definition clear_if_finalized :: "TransitionResult \<Rightarrow> TransitionResult" where
  "clear_if_finalized iteration =
    (case new_state iteration of
       None \<Rightarrow> iteration
     | Some state \<Rightarrow>
         let all_finalized =
               list_all (\<lambda>pair. payee_state pair \<in> set STATE_TRANSFER_PAID \<and>
                                payer_state pair \<in> set STATE_TRANSFER_PAID)
                        (transfers_pair state)
         in if all_finalized then \<lparr>new_state = None, events = events iteration\<rparr>
            else iteration)"

text \<open>
  A channel object that a function receives as an argument, or returns, is written as
  the pair of the key under which \<open>channelidentifiers_to_channels\<close> holds the object
  and its value, so that a mutation of the object is written back to the map. The
  pseudo random generator is the state \<open>prng\<close>, which \<open>message_identifier_from_prng\<close>
  advances. A function that mutates the map, the generator or the pairs returns them.
\<close>

fun next_channel_from_routes ::
  "'h ChannelModule \<Rightarrow> RouteState list \<Rightarrow> 'h ChannelMap \<Rightarrow> int \<Rightarrow> int
    \<Rightarrow> (ChannelID \<times> 'h NettingChannelState) option" where
  "next_channel_from_routes ch [] channelidentifiers_to_channels transfer_amount lock_timeout =
    None"
| "next_channel_from_routes ch (route # available_routes) channelidentifiers_to_channels
      transfer_amount lock_timeout =
    (case channelidentifiers_to_channels (RouteState.channel_identifier route) of
       None \<Rightarrow>
         next_channel_from_routes ch available_routes channelidentifiers_to_channels
           transfer_amount lock_timeout
     | Some channel_state \<Rightarrow>
         if is_channel_usable ch channel_state transfer_amount lock_timeout
         then Some (RouteState.channel_identifier route, channel_state)
         else next_channel_from_routes ch available_routes channelidentifiers_to_channels
                transfer_amount lock_timeout)"

definition next_transfer_pair ::
  "'h ChannelModule \<Rightarrow> LockedTransferState \<Rightarrow> RouteState list \<Rightarrow> 'h ChannelMap \<Rightarrow> prng \<Rightarrow> int
    \<Rightarrow> exception + ((MediationPairState option \<times> event list) \<times> 'h ChannelMap \<times> prng)" where
  "next_transfer_pair ch payer_transfer' available_routes channelidentifiers_to_channels
      pseudo_random_generator block_number =
    (let lock_timeout = expiration (lock payer_transfer') - block_number in
     case next_channel_from_routes ch available_routes channelidentifiers_to_channels
            (amount (lock payer_transfer')) lock_timeout of
       None \<Rightarrow> Inr ((None, []), channelidentifiers_to_channels, pseudo_random_generator)
     | Some (key, payee_channel) \<Rightarrow>
         if \<not> settle_timeout payee_channel \<ge> lock_timeout then Inl AssertionError
         else if token_address payee_channel \<noteq> token payer_transfer' then Inl AssertionError
         else
           let (message_identifier, prng') =
                 message_identifier_from_prng ch pseudo_random_generator;
               (transfer, payee_channel') =
                 channel_send_lockedtransfer ch payee_channel
                   (initiator payer_transfer') (target payer_transfer')
                   (amount (lock payer_transfer')) message_identifier
                   (payment_identifier payer_transfer')
                   (expiration (lock payer_transfer'))
                   (Lock.secrethash (lock payer_transfer'));
               transfer_pair =
                 new_MediationPairState payer_transfer'
                   (address (partner_state payee_channel')) transfer
           in Inr ((Some transfer_pair, [SendMediatedTransfer transfer]),
                   channelidentifiers_to_channels(key \<mapsto> payee_channel'), prng'))"

fun register_secret_loop ::
  "('h NettingChannelState \<Rightarrow> Secret \<Rightarrow> SecretHash \<Rightarrow> 'h NettingChannelState)
    \<Rightarrow> MediationPairState list \<Rightarrow> 'h ChannelMap \<Rightarrow> Secret \<Rightarrow> SecretHash
    \<Rightarrow> exception + 'h ChannelMap" where
  "register_secret_loop register [] chans secret' secrethash' = Inr chans"
| "register_secret_loop register (pair # rest) chans secret' secrethash' =
    (let payer_id = BalanceProof.channel_identifier (balance_proof (payer_transfer pair));
         payee_id = BalanceProof.channel_identifier (balance_proof (payee_transfer pair))
     in case chans payer_id of
          None \<Rightarrow> Inl KeyError
        | Some payer_channel \<Rightarrow>
            let chans1 = chans(payer_id \<mapsto> register payer_channel secret' secrethash')
            in case chans1 payee_id of
                 None \<Rightarrow> Inl KeyError
               | Some payee_channel \<Rightarrow>
                   register_secret_loop register rest
                     (chans1(payee_id \<mapsto> register payee_channel secret' secrethash'))
                     secret' secrethash')"

definition set_secret ::
  "'h ChannelModule \<Rightarrow> MediatorTransferState \<Rightarrow> 'h ChannelMap \<Rightarrow> Secret \<Rightarrow> SecretHash
    \<Rightarrow> exception + (MediatorTransferState \<times> 'h ChannelMap)" where
  "set_secret ch state channelidentifiers_to_channels secret' secrethash' =
    (let state' = state\<lparr>secret := Some secret'\<rparr> in
     case register_secret_loop (channel_register_secret ch) (transfers_pair state')
            channelidentifiers_to_channels secret' secrethash' of
       Inl e \<Rightarrow> Inl e
     | Inr chans' \<Rightarrow> Inr (state', chans'))"

definition set_onchain_secret ::
  "'h ChannelModule \<Rightarrow> MediatorTransferState \<Rightarrow> 'h ChannelMap \<Rightarrow> Secret \<Rightarrow> SecretHash
    \<Rightarrow> exception + (MediatorTransferState \<times> 'h ChannelMap)" where
  "set_onchain_secret ch state channelidentifiers_to_channels secret' secrethash' =
    (let state' = state\<lparr>secret := Some secret'\<rparr> in
     case register_secret_loop (channel_register_onchain_secret ch) (transfers_pair state')
            channelidentifiers_to_channels secret' secrethash' of
       Inl e \<Rightarrow> Inl e
     | Inr chans' \<Rightarrow> Inr (state', chans'))"

text \<open>
  The loops over \<open>reversed(transfers_pair)\<close> run over the reversed list and the result
  is reversed back. The first loop stops at its \<open>break\<close>.
\<close>

fun set_payee_state_loop ::
  "MediationPairState list \<Rightarrow> Address \<Rightarrow> string \<Rightarrow> bool \<Rightarrow> MediationPairState list \<times> bool"
  where
  "set_payee_state_loop [] payee_address' new_payee_state wrong_reveal_order =
    ([], wrong_reveal_order)"
| "set_payee_state_loop (back # rest) payee_address' new_payee_state wrong_reveal_order =
    (if payee_address back = payee_address'
     then (back\<lparr>payee_state := new_payee_state\<rparr> # rest, wrong_reveal_order)
     else
       let wrong' = (if payee_state back \<notin> set STATE_SECRET_KNOWN then True
                     else wrong_reveal_order);
           (rest', wrong'') = set_payee_state_loop rest payee_address' new_payee_state wrong'
       in (back # rest', wrong''))"

definition set_payee_state_and_check_reveal_order ::
  "MediationPairState list \<Rightarrow> Address \<Rightarrow> string
    \<Rightarrow> exception + (MediationPairState list \<times> event list)" where
  "set_payee_state_and_check_reveal_order transfers_pair' payee_address' new_payee_state =
    (if new_payee_state \<notin> set valid_payee_states then Inl AssertionError
     else
       let (reversed', wrong_reveal_order) =
             set_payee_state_loop (rev transfers_pair') payee_address' new_payee_state False
       in if wrong_reveal_order then Inr (rev reversed', []) else Inr (rev reversed', []))"

text \<open>
  \<open>set_expired_pairs\<close> first selects the pending pairs and then mutates the selected
  objects in place. The walk below visits the pairs of the list in order, leaves a
  pair that \<open>get_pending_transfer_pairs\<close> does not select as it is, and writes the
  update of a selected pair at the pair's own position.
\<close>

fun set_expired_pairs_loop ::
  "MediationPairState list \<Rightarrow> int \<Rightarrow> event list \<Rightarrow> MediationPairState list \<times> event list"
  where
  "set_expired_pairs_loop [] block_number events' = ([], events')"
| "set_expired_pairs_loop (pair # rest) block_number events' =
    (if get_pending_transfer_pairs [pair] = []
     then let (rest', events'') = set_expired_pairs_loop rest block_number events'
          in (pair # rest', events'')
     else
       let has_payee_transfer_expired =
             (block_number > expiration (lock (payee_transfer pair)) \<and>
              payee_state pair \<noteq> ''payee_expired'');
           has_payer_transfer_expired =
             (block_number > expiration (lock (payer_transfer pair)) \<and>
              payer_state pair \<noteq> ''payer_expired'');
           (pair1, events1) =
             (if has_payer_transfer_expired
              then (pair\<lparr>payer_state := ''payer_expired''\<rparr>,
                    events' @ [EventUnlockClaimFailed
                                 (payment_identifier (payer_transfer pair))
                                 (Lock.secrethash (lock (payer_transfer pair)))
                                 ''lock expired''])
              else (pair, events'));
           (pair2, events2) =
             (if has_payee_transfer_expired
              then (pair1\<lparr>payee_state := ''payee_expired''\<rparr>,
                    events1 @ [EventUnlockFailed
                                 (payment_identifier (payee_transfer pair1))
                                 (Lock.secrethash (lock (payee_transfer pair1)))
                                 ''lock expired''])
              else (pair1, events1));
           (rest', events'') = set_expired_pairs_loop rest block_number events2
       in (pair2 # rest', events''))"

definition set_expired_pairs ::
  "MediationPairState list \<Rightarrow> int \<Rightarrow> MediationPairState list \<times> event list" where
  "set_expired_pairs transfers_pair' block_number =
    set_expired_pairs_loop transfers_pair' block_number []"

definition events_for_refund_transfer ::
  "'h ChannelModule \<Rightarrow> 'h NettingChannelState \<Rightarrow> LockedTransferState \<Rightarrow> prng \<Rightarrow> int
    \<Rightarrow> event list \<times> 'h NettingChannelState \<times> prng" where
  "events_for_refund_transfer ch refund_channel transfer_to_refund pseudo_random_generator
      block_number =
    (let lock_timeout = expiration (lock transfer_to_refund) - block_number;
         transfer_amount = amount (lock transfer_to_refund)
     in if is_channel_usable ch refund_channel transfer_amount lock_timeout
        then
          let (message_identifier, prng') =
                message_identifier_from_prng ch pseudo_random_generator;
              (refund_transfer, refund_channel') =
                channel_send_refundtransfer ch refund_channel
                  (initiator transfer_to_refund) (target transfer_to_refund)
                  (amount (lock transfer_to_refund)) message_identifier
                  (payment_identifier transfer_to_refund)
                  (expiration (lock transfer_to_refund))
                  (Lock.secrethash (lock transfer_to_refund))
          in ([refund_transfer], refund_channel', prng')
        else ([], refund_channel, pseudo_random_generator))"

fun events_for_revealsecret_loop ::
  "'h ChannelModule \<Rightarrow> MediationPairState list \<Rightarrow> Secret \<Rightarrow> prng \<Rightarrow> event list
    \<Rightarrow> MediationPairState list \<times> event list \<times> prng" where
  "events_for_revealsecret_loop ch [] secret' pseudo_random_generator events' =
    ([], events', pseudo_random_generator)"
| "events_for_revealsecret_loop ch (pair # rest) secret' pseudo_random_generator events' =
    (let payee_secret = (payee_state pair \<in> set STATE_SECRET_KNOWN);
         payer_secret = (payer_state pair \<in> set STATE_SECRET_KNOWN);
         should_send_secret = (payer_state pair = ''payer_pending'')
     in if payee_secret \<and> \<not> payer_secret \<and> should_send_secret
        then
          let (message_identifier, prng') =
                message_identifier_from_prng ch pseudo_random_generator;
              pair' = pair\<lparr>payer_state := ''payer_secret_revealed''\<rparr>;
              revealsecret =
                SendRevealSecret (sender (balance_proof (payer_transfer pair')))
                  (CHANNEL_IDENTIFIER_GLOBAL_QUEUE ch) message_identifier secret';
              (rest', events'', prng'') =
                events_for_revealsecret_loop ch rest secret' prng' (events' @ [revealsecret])
          in (pair' # rest', events'', prng'')
        else
          let (rest', events'', prng'') =
                events_for_revealsecret_loop ch rest secret' pseudo_random_generator events'
          in (pair # rest', events'', prng''))"

definition events_for_revealsecret ::
  "'h ChannelModule \<Rightarrow> MediationPairState list \<Rightarrow> Secret \<Rightarrow> prng
    \<Rightarrow> MediationPairState list \<times> event list \<times> prng" where
  "events_for_revealsecret ch transfers_pair' secret' pseudo_random_generator =
    (let (reversed', events', prng') =
           events_for_revealsecret_loop ch (rev transfers_pair') secret'
             pseudo_random_generator []
     in (rev reversed', events', prng'))"

fun events_for_balanceproof_loop ::
  "'h ChannelModule \<Rightarrow> 'h ChannelMap \<Rightarrow> MediationPairState list \<Rightarrow> prng \<Rightarrow> int \<Rightarrow> Secret
    \<Rightarrow> SecretHash \<Rightarrow> event list
    \<Rightarrow> exception + (MediationPairState list \<times> event list \<times> 'h ChannelMap \<times> prng)" where
  "events_for_balanceproof_loop ch chans [] pseudo_random_generator block_number secret'
      secrethash' events' =
    Inr ([], events', chans, pseudo_random_generator)"
| "events_for_balanceproof_loop ch chans (pair # rest) pseudo_random_generator block_number
      secret' secrethash' events' =
    (let payee_knows_secret = (payee_state pair \<in> set STATE_SECRET_KNOWN);
         payee_payed = (payee_state pair \<in> set STATE_TRANSFER_PAID)
     in case get_payee_channel chans pair of
          Inl e \<Rightarrow> Inl e
        | Inr payee_channel \<Rightarrow>
            let payee_channel_open =
                  (channel_get_status ch payee_channel = CHANNEL_STATE_OPENED ch)
            in case get_payer_channel chans pair of
                 Inl e \<Rightarrow> Inl e
               | Inr payer_channel \<Rightarrow>
                   (case is_safe_to_wait (expiration (lock (payer_transfer pair)))
                           (reveal_timeout payer_channel) block_number of
                      Inl e \<Rightarrow> Inl e
                    | Inr (is_safe_to_send_balanceproof, _) \<Rightarrow>
                        if payee_channel_open \<and> payee_knows_secret \<and> \<not> payee_payed \<and>
                           is_safe_to_send_balanceproof
                        then
                          let pair' = pair\<lparr>payee_state := ''payee_balance_proof''\<rparr>;
                              (message_identifier, prng') =
                                message_identifier_from_prng ch pseudo_random_generator;
                              (unlock_lock, payee_channel') =
                                channel_send_unlock ch payee_channel
                                  (payment_identifier (payee_transfer pair'))
                                  message_identifier secret' secrethash';
                              chans' =
                                chans(BalanceProof.channel_identifier
                                        (balance_proof (payee_transfer pair')) \<mapsto> payee_channel');
                              unlock_success =
                                EventUnlockSuccess
                                  (payment_identifier (payer_transfer pair'))
                                  (Lock.secrethash (lock (payer_transfer pair')))
                          in (case events_for_balanceproof_loop ch chans' rest prng'
                                     block_number secret' secrethash'
                                     (events' @ [unlock_lock, unlock_success]) of
                                Inl e \<Rightarrow> Inl e
                              | Inr (rest', events'', chans'', prng'') \<Rightarrow>
                                  Inr (pair' # rest', events'', chans'', prng''))
                        else
                          (case events_for_balanceproof_loop ch chans rest
                                  pseudo_random_generator block_number secret' secrethash'
                                  events' of
                             Inl e \<Rightarrow> Inl e
                           | Inr (rest', events'', chans'', prng'') \<Rightarrow>
                               Inr (pair # rest', events'', chans'', prng''))))"

definition events_for_balanceproof ::
  "'h ChannelModule \<Rightarrow> 'h ChannelMap \<Rightarrow> MediationPairState list \<Rightarrow> prng \<Rightarrow> int \<Rightarrow> Secret
    \<Rightarrow> SecretHash
    \<Rightarrow> exception + (MediationPairState list \<times> event list \<times> 'h ChannelMap \<times> prng)" where
  "events_for_balanceproof ch channelidentifiers_to_channels transfers_pair'
      pseudo_random_generator block_number secret' secrethash' =
    (case events_for_balanceproof_loop ch channelidentifiers_to_channels (rev transfers_pair')
            pseudo_random_generator block_number secret' secrethash' [] of
       Inl e \<Rightarrow> Inl e
     | Inr (reversed', events', chans', prng') \<Rightarrow> Inr (rev reversed', events', chans', prng'))"

fun events_for_onchain_secretreveal_loop ::
  "'h ChannelModule \<Rightarrow> 'h ChannelMap \<Rightarrow> MediationPairState list \<Rightarrow> int
    \<Rightarrow> exception + event list" where
  "events_for_onchain_secretreveal_loop ch chans [] block_number = Inr []"
| "events_for_onchain_secretreveal_loop ch chans (pair # rest) block_number =
    (case get_payer_channel chans pair of
       Inl e \<Rightarrow> Inl e
     | Inr payer_channel \<Rightarrow>
         let expiration' = expiration (lock (payer_transfer pair)) in
         case is_safe_to_wait expiration' (reveal_timeout payer_channel) block_number of
           Inl e \<Rightarrow> Inl e
         | Inr (safe_to_wait, _) \<Rightarrow>
             let secret_known =
                   channel_is_secret_known ch (partner_state payer_channel)
                     (Lock.secrethash (lock (payer_transfer pair)))
             in if \<not> safe_to_wait \<and> secret_known
                then
                  let secret' =
                        channel_get_secret ch (partner_state payer_channel)
                          (Lock.secrethash (lock (payer_transfer pair)))
                  in Inr (secret_registry_events_for_onchain_secretreveal payer_channel
                            secret' expiration')
                else events_for_onchain_secretreveal_loop ch chans rest block_number)"

definition events_for_onchain_secretreveal ::
  "'h ChannelModule \<Rightarrow> 'h ChannelMap \<Rightarrow> MediationPairState list \<Rightarrow> int
    \<Rightarrow> exception + event list" where
  "events_for_onchain_secretreveal ch channelidentifiers_to_channels transfers_pair'
      block_number =
    (let pending_transfers_pairs = get_pending_transfer_pairs transfers_pair'
     in events_for_onchain_secretreveal_loop ch channelidentifiers_to_channels
          (rev pending_transfers_pairs) block_number)"

fun events_for_unlock_if_closed_loop ::
  "'h ChannelModule \<Rightarrow> 'h ChannelMap \<Rightarrow> MediationPairState list \<Rightarrow> Secret \<Rightarrow> SecretHash
    \<Rightarrow> event list \<Rightarrow> exception + (MediationPairState list \<times> event list)" where
  "events_for_unlock_if_closed_loop ch chans [] secret' secrethash' events' = Inr ([], events')"
| "events_for_unlock_if_closed_loop ch chans (pair # rest) secret' secrethash' events' =
    (if get_pending_transfer_pairs [pair] = []
     then (case events_for_unlock_if_closed_loop ch chans rest secret' secrethash' events' of
             Inl e \<Rightarrow> Inl e
           | Inr (rest', events'') \<Rightarrow> Inr (pair # rest', events''))
     else
       case get_payer_channel chans pair of
         Inl e \<Rightarrow> Inl e
       | Inr payer_channel \<Rightarrow>
           let payer_channel_open =
                 (channel_get_status ch payer_channel = CHANNEL_STATE_OPENED ch)
           in if \<not> payer_channel_open
              then
                let pair' = pair\<lparr>payer_state := ''payer_waiting_unlock''\<rparr>;
                    partner_state' = partner_state payer_channel;
                    lock' = channel_get_lock ch partner_state' secrethash';
                    unlock_proof =
                      channel_compute_proof_for_lock ch partner_state' secret' lock';
                    unlock =
                      ContractSendChannelBatchUnlock
                        (token_network_identifier payer_channel)
                        (identifier payer_channel) [unlock_proof]
                in (case events_for_unlock_if_closed_loop ch chans rest secret' secrethash'
                           (events' @ [unlock]) of
                      Inl e \<Rightarrow> Inl e
                    | Inr (rest', events'') \<Rightarrow> Inr (pair' # rest', events''))
              else
                (case events_for_unlock_if_closed_loop ch chans rest secret' secrethash'
                        events' of
                   Inl e \<Rightarrow> Inl e
                 | Inr (rest', events'') \<Rightarrow> Inr (pair # rest', events'')))"

definition events_for_unlock_if_closed ::
  "'h ChannelModule \<Rightarrow> 'h ChannelMap \<Rightarrow> MediationPairState list \<Rightarrow> Secret \<Rightarrow> SecretHash
    \<Rightarrow> exception + (MediationPairState list \<times> event list)" where
  "events_for_unlock_if_closed ch channelidentifiers_to_channels transfers_pair' secret'
      secrethash' =
    events_for_unlock_if_closed_loop ch channelidentifiers_to_channels transfers_pair'
      secret' secrethash' []"

definition secret_learned ::
  "'h ChannelModule \<Rightarrow> MediatorTransferState \<Rightarrow> 'h ChannelMap \<Rightarrow> prng \<Rightarrow> int \<Rightarrow> Secret
    \<Rightarrow> SecretHash \<Rightarrow> Address \<Rightarrow> string \<Rightarrow> bool
    \<Rightarrow> exception + (TransitionResult \<times> 'h ChannelMap \<times> prng)" where
  "secret_learned ch state channelidentifiers_to_channels pseudo_random_generator block_number
      secret' secrethash' payee_address' new_payee_state from_onchain_secretreveal =
    (if new_payee_state \<notin> set STATE_SECRET_KNOWN then Inl AssertionError
     else
       case (if secret state = None
             then
               (case (if from_onchain_secretreveal
                      then set_onchain_secret ch state channelidentifiers_to_channels
                             secret' secrethash'
                      else set_secret ch state channelidentifiers_to_channels
                             secret' secrethash') of
                  Inl e \<Rightarrow> Inl e
                | Inr (state1, chans1) \<Rightarrow>
                    (case events_for_unlock_if_closed ch chans1 (transfers_pair state1)
                            secret' secrethash' of
                       Inl e \<Rightarrow> Inl e
                     | Inr (pairs', unlock) \<Rightarrow>
                         Inr (state1\<lparr>transfers_pair := pairs'\<rparr>, chans1, unlock)))
             else Inr (state, channelidentifiers_to_channels, [])) of
         Inl e \<Rightarrow> Inl e
       | Inr (state2, chans2, unlock) \<Rightarrow>
           (case set_payee_state_and_check_reveal_order (transfers_pair state2)
                   payee_address' new_payee_state of
              Inl e \<Rightarrow> Inl e
            | Inr (pairs3, wrong_order) \<Rightarrow>
                let (pairs4, secret_reveal, prng4) =
                      events_for_revealsecret ch pairs3 secret' pseudo_random_generator
                in case events_for_balanceproof ch chans2 pairs4 prng4 block_number
                          secret' secrethash' of
                     Inl e \<Rightarrow> Inl e
                   | Inr (pairs5, balance_proof', chans5, prng5) \<Rightarrow>
                       Inr (\<lparr>new_state = Some (state2\<lparr>transfers_pair := pairs5\<rparr>),
                             events = wrong_order @ secret_reveal @ balance_proof' @ unlock\<rparr>,
                            chans5, prng5)))"

definition mediate_transfer ::
  "'h ChannelModule \<Rightarrow> MediatorTransferState \<Rightarrow> RouteState list
    \<Rightarrow> ChannelID \<times> 'h NettingChannelState \<Rightarrow> 'h ChannelMap \<Rightarrow> prng \<Rightarrow> LockedTransferState
    \<Rightarrow> int \<Rightarrow> exception + (TransitionResult \<times> 'h ChannelMap \<times> prng)" where
  "mediate_transfer ch state possible_routes payer_channel channelidentifiers_to_channels
      pseudo_random_generator payer_transfer' block_number =
    (let available_routes = filter_used_routes (transfers_pair state) possible_routes in
     if address (partner_state (snd payer_channel)) \<noteq> sender (balance_proof payer_transfer')
     then Inl AssertionError
     else
       case next_transfer_pair ch payer_transfer' available_routes
              channelidentifiers_to_channels pseudo_random_generator block_number of
         Inl e \<Rightarrow> Inl e
       | Inr ((transfer_pair, mediated_events), chans1, prng1) \<Rightarrow>
           (case transfer_pair of
              None \<Rightarrow>
                (case (case transfers_pair state of
                         original_pair # _ \<Rightarrow>
                           (case get_payer_channel chans1 original_pair of
                              Inl e \<Rightarrow> Inl e
                            | Inr original_channel \<Rightarrow>
                                Inr ((BalanceProof.channel_identifier
                                        (balance_proof (payer_transfer original_pair)),
                                      original_channel),
                                     payer_transfer original_pair))
                       | [] \<Rightarrow> Inr (payer_channel, payer_transfer')) of
                   Inl e \<Rightarrow> Inl e
                 | Inr ((key, original_channel), original_transfer) \<Rightarrow>
                     let (refund_events, original_channel', prng2) =
                           events_for_refund_transfer ch original_channel original_transfer
                             prng1 block_number
                     in Inr (\<lparr>new_state = Some state, events = refund_events\<rparr>,
                             chans1(key \<mapsto> original_channel'), prng2))
            | Some pair \<Rightarrow>
                Inr (\<lparr>new_state = Some (state\<lparr>transfers_pair := transfers_pair state @ [pair]\<rparr>),
                      events = mediated_events\<rparr>,
                     chans1, prng1)))"

definition handle_init ::
  "'h ChannelModule \<Rightarrow> RouteState list \<Rightarrow> RouteState \<Rightarrow> LockedTransferState \<Rightarrow> 'h ChannelMap
    \<Rightarrow> prng \<Rightarrow> int \<Rightarrow> exception + (TransitionResult \<times> 'h ChannelMap \<times> prng)" where
  "handle_init ch routes from_route from_transfer channelidentifiers_to_channels
      pseudo_random_generator block_number =
    (case channelidentifiers_to_channels (RouteState.channel_identifier from_route) of
       None \<Rightarrow>
         Inr (\<lparr>new_state = None, events = []\<rparr>, channelidentifiers_to_channels,
              pseudo_random_generator)
     | Some payer_channel \<Rightarrow>
         let mediator_state =
               \<lparr>MediatorTransferState.secrethash = Lock.secrethash (lock from_transfer),
                secret = None, transfers_pair = []\<rparr>;
             ((is_valid, events'), payer_channel') =
               channel_handle_receive_lockedtransfer ch payer_channel from_transfer;
             chans1 = channelidentifiers_to_channels
                        (RouteState.channel_identifier from_route \<mapsto> payer_channel')
         in if \<not> is_valid
            then Inr (\<lparr>new_state = None, events = events'\<rparr>, chans1, pseudo_random_generator)
            else
              case mediate_transfer ch mediator_state routes
                     (RouteState.channel_identifier from_route, payer_channel') chans1
                     pseudo_random_generator from_transfer block_number of
                Inl e \<Rightarrow> Inl e
              | Inr (iteration, chans2, prng2) \<Rightarrow>
                  Inr (\<lparr>new_state = new_state iteration,
                        events = events' @ events iteration\<rparr>, chans2, prng2))"

text \<open>
  \<open>handle_block\<close> reads \<open>state_change.block_number\<close> for the cleanup threshold and its
  argument \<open>block_number\<close> for everything else; both are arguments here.
\<close>

definition handle_block ::
  "'h ChannelModule \<Rightarrow> MediatorTransferState \<Rightarrow> int \<Rightarrow> 'h ChannelMap \<Rightarrow> prng \<Rightarrow> int
    \<Rightarrow> exception + (TransitionResult \<times> 'h ChannelMap \<times> prng)" where
  "handle_block ch mediator_state state_change_block_number channelidentifiers_to_channels
      pseudo_random_generator block_number =
    (case transfers_pair mediator_state of
       [] \<Rightarrow> Inl IndexError
     | first_pair # _ \<Rightarrow>
         let channel_identifier' =
               BalanceProof.channel_identifier (balance_proof (payee_transfer first_pair))
         in case channelidentifiers_to_channels channel_identifier' of
              None \<Rightarrow> Inl AttributeError
            | Some channel_state \<Rightarrow>
                let secrethash' = MediatorTransferState.secrethash mediator_state;
                    expired_lock =
                      (case secrethashes_to_lockedlocks (our_state channel_state) secrethash' of
                         None \<Rightarrow> None
                       | Some locked_lock \<Rightarrow>
                           let lock_expiration_threshold =
                                 expiration locked_lock +
                                 DEFAULT_NUMBER_OF_CONFIRMATIONS_BLOCK ch
                           in if state_change_block_number > lock_expiration_threshold
                              then Some locked_lock else None)
                in case expired_lock of
                     Some locked_lock \<Rightarrow>
                       let channel_state1 =
                             channel_state\<lparr>our_state :=
                               channel_delete_secrethash_endstate ch (our_state channel_state)
                                 secrethash'\<rparr>;
                           (expired_lock_event, channel_state2, prng') =
                             channel_events_for_expired_lock ch channel_state1 locked_lock
                               pseudo_random_generator
                       in Inr (\<lparr>new_state = None, events = [expired_lock_event]\<rparr>,
                               channelidentifiers_to_channels
                                 (channel_identifier' \<mapsto> channel_state2),
                               prng')
                   | None \<Rightarrow>
                       (case events_for_onchain_secretreveal ch channelidentifiers_to_channels
                               (transfers_pair mediator_state) block_number of
                          Inl e \<Rightarrow> Inl e
                        | Inr secret_reveal_events \<Rightarrow>
                            let (pairs', unlock_fail_events) =
                                  set_expired_pairs (transfers_pair mediator_state) block_number
                            in Inr (\<lparr>new_state =
                                       Some (mediator_state\<lparr>transfers_pair := pairs'\<rparr>),
                                     events = unlock_fail_events @ secret_reveal_events\<rparr>,
                                    channelidentifiers_to_channels, pseudo_random_generator)))"

definition handle_refundtransfer ::
  "'h ChannelModule \<Rightarrow> MediatorTransferState \<Rightarrow> LockedTransferState \<Rightarrow> RouteState list
    \<Rightarrow> 'h ChannelMap \<Rightarrow> prng \<Rightarrow> int
    \<Rightarrow> exception + (TransitionResult \<times> 'h ChannelMap \<times> prng)" where
  "handle_refundtransfer ch mediator_state refund_transfer refund_routes
      channelidentifiers_to_channels pseudo_random_generator block_number =
    (if secret mediator_state = None
     then
       (case transfers_pair mediator_state of
          [] \<Rightarrow> Inl IndexError
        | _ # _ \<Rightarrow>
            let transfer_pair = last (transfers_pair mediator_state);
                payee_transfer' = payee_transfer transfer_pair;
                payer_transfer' = refund_transfer;
                channel_identifier' =
                  BalanceProof.channel_identifier (balance_proof payer_transfer')
            in case channelidentifiers_to_channels channel_identifier' of
                 None \<Rightarrow> Inl KeyError
               | Some payer_channel \<Rightarrow>
                   let ((is_valid, channel_events), payer_channel') =
                         channel_handle_refundtransfer ch payee_transfer' payer_channel
                           (ReceiveTransferRefund refund_transfer refund_routes);
                       chans1 = channelidentifiers_to_channels
                                  (channel_identifier' \<mapsto> payer_channel')
                   in if \<not> is_valid
                      then Inr (\<lparr>new_state = None, events = channel_events\<rparr>, chans1,
                                pseudo_random_generator)
                      else
                        case mediate_transfer ch mediator_state refund_routes
                               (channel_identifier', payer_channel') chans1
                               pseudo_random_generator payer_transfer' block_number of
                          Inl e \<Rightarrow> Inl e
                        | Inr (iteration, chans2, prng2) \<Rightarrow>
                            Inr (\<lparr>new_state = new_state iteration,
                                  events = channel_events @ events iteration\<rparr>, chans2, prng2))
     else Inr (\<lparr>new_state = Some mediator_state, events = []\<rparr>,
               channelidentifiers_to_channels, pseudo_random_generator))"

text \<open>
  The last argument of \<open>handle_secretreveal\<close> is
  \<open>isinstance(mediator_state_change, ContractReceiveSecretReveal)\<close>.
\<close>

definition handle_secretreveal ::
  "'h ChannelModule \<Rightarrow> MediatorTransferState \<Rightarrow> Secret \<Rightarrow> SecretHash \<Rightarrow> Address \<Rightarrow> bool
    \<Rightarrow> 'h ChannelMap \<Rightarrow> prng \<Rightarrow> int
    \<Rightarrow> exception + (TransitionResult \<times> 'h ChannelMap \<times> prng)" where
  "handle_secretreveal ch mediator_state change_secret change_secrethash change_sender
      is_contract_reveal channelidentifiers_to_channels pseudo_random_generator block_number =
    (let is_secret_unknown = (secret mediator_state = None);
         is_valid_reveal =
           (change_secrethash = MediatorTransferState.secrethash mediator_state)
     in if is_secret_unknown \<and> is_valid_reveal
        then secret_learned ch mediator_state channelidentifiers_to_channels
               pseudo_random_generator block_number change_secret change_secrethash
               change_sender ''payee_secret_revealed'' is_contract_reveal
        else Inr (\<lparr>new_state = Some mediator_state, events = []\<rparr>,
                  channelidentifiers_to_channels, pseudo_random_generator))"

text \<open>
  \<open>handle_unlock_body\<close> is the body of the loop of \<open>handle_unlock\<close> for one pair: it
  returns the pair, the event list and the channel map after the iteration.
\<close>

definition handle_unlock_body ::
  "'h ChannelModule \<Rightarrow> MediationPairState \<Rightarrow> MessageID \<Rightarrow> BalanceProof \<Rightarrow> 'h ChannelMap
    \<Rightarrow> event list \<Rightarrow> MediationPairState \<times> event list \<times> 'h ChannelMap" where
  "handle_unlock_body ch pair message_identifier balance_proof' chans events' =
    (let balance_proof_sender = sender balance_proof';
         channel_identifier' = BalanceProof.channel_identifier balance_proof'
     in if sender (balance_proof (payer_transfer pair)) = balance_proof_sender
        then
          (case chans channel_identifier' of
             None \<Rightarrow> (pair, events', chans)
           | Some channel_state \<Rightarrow>
               let ((is_valid, channel_events), channel_state') =
                     channel_handle_unlock ch channel_state
                       (ReceiveUnlock message_identifier balance_proof');
                   chans1 = chans(channel_identifier' \<mapsto> channel_state');
                   events1 = events' @ channel_events
               in if is_valid
                  then
                    let unlock =
                          EventUnlockClaimSuccess
                            (payment_identifier (payee_transfer pair))
                            (Lock.secrethash (lock (payee_transfer pair)));
                        send_processed =
                          SendProcessed balance_proof_sender
                            (CHANNEL_IDENTIFIER_GLOBAL_QUEUE ch) message_identifier
                    in (pair\<lparr>payer_state := ''payer_balance_proof''\<rparr>,
                        events1 @ [unlock, send_processed], chans1)
                  else (pair, events1, chans1))
        else (pair, events', chans))"

fun handle_unlock_loop ::
  "'h ChannelModule \<Rightarrow> MediationPairState list \<Rightarrow> MessageID \<Rightarrow> BalanceProof \<Rightarrow> 'h ChannelMap
    \<Rightarrow> event list \<Rightarrow> MediationPairState list \<times> event list \<times> 'h ChannelMap" where
  "handle_unlock_loop ch [] message_identifier balance_proof' chans events' =
    ([], events', chans)"
| "handle_unlock_loop ch (pair # rest) message_identifier balance_proof' chans events' =
    (case handle_unlock_body ch pair message_identifier balance_proof' chans events' of
       (pair', events1, chans1) \<Rightarrow>
         (case handle_unlock_loop ch rest message_identifier balance_proof' chans1 events1 of
            (rest', events'', chans'') \<Rightarrow> (pair' # rest', events'', chans'')))"

definition handle_unlock ::
  "'h ChannelModule \<Rightarrow> MediatorTransferState \<Rightarrow> MessageID \<Rightarrow> BalanceProof \<Rightarrow> 'h ChannelMap
    \<Rightarrow> TransitionResult \<times> 'h ChannelMap" where
  "handle_unlock ch mediator_state message_identifier balance_proof'
      channelidentifiers_to_channels =
    (let (pairs', events', chans') =
           handle_unlock_loop ch (transfers_pair mediator_state) message_identifier
             balance_proof' channelidentifiers_to_channels []
     in (\<lparr>new_state = Some (mediator_state\<lparr>transfers_pair := pairs'\<rparr>), events = events'\<rparr>,
         chans'))"

definition handle_lock_expired ::
  "'h ChannelModule \<Rightarrow> RouteState \<Rightarrow> 'h ChannelMap \<Rightarrow> TransitionResult \<times> 'h ChannelMap" where
  "handle_lock_expired ch from_route channelidentifiers_to_channels =
    (let channel_state =
           channelidentifiers_to_channels (RouteState.channel_identifier from_route);
         (result_events, channel_state') =
           channel_handle_receive_lock_expired ch channel_state
             (ReceiveLockExpired from_route)
     in (\<lparr>new_state = None, events = result_events\<rparr>,
         (case channel_state' of
            None \<Rightarrow> channelidentifiers_to_channels
          | Some c \<Rightarrow>
              channelidentifiers_to_channels
                (RouteState.channel_identifier from_route \<mapsto> c))))"

text \<open>
  \<open>state_transition\<close> in two parts: \<open>state_transition_dispatch\<close> is the chain of
  \<open>isinstance\<close> tests that selects the handler and yields \<open>iteration\<close>;
  \<open>state_transition\<close> then runs \<open>sanity_check\<close> on a new state that is not \<open>None\<close>
  and returns \<open>clear_if_finalized(iteration)\<close>. A handler that reads an attribute of
  the mediator state raises \<open>AttributeError\<close> when the state is \<open>None\<close>.
\<close>

definition state_transition_dispatch ::
  "'h ChannelModule \<Rightarrow> MediatorTransferState option \<Rightarrow> state_change \<Rightarrow> 'h ChannelMap \<Rightarrow> prng
    \<Rightarrow> int \<Rightarrow> exception + (TransitionResult \<times> 'h ChannelMap \<times> prng)" where
  "state_transition_dispatch ch mediator_state state_change' channelidentifiers_to_channels
      pseudo_random_generator block_number =
    (let unchanged =
           Inr (\<lparr>new_state = mediator_state, events = []\<rparr>, channelidentifiers_to_channels,
                pseudo_random_generator)
     in case state_change' of
          ActionInitMediator routes from_route from_transfer \<Rightarrow>
            (case mediator_state of
               None \<Rightarrow>
                 handle_init ch routes from_route from_transfer
                   channelidentifiers_to_channels pseudo_random_generator block_number
             | Some _ \<Rightarrow> unchanged)
        | Block state_change_block_number \<Rightarrow>
            (case mediator_state of
               None \<Rightarrow> Inl AttributeError
             | Some state \<Rightarrow>
                 handle_block ch state state_change_block_number
                   channelidentifiers_to_channels pseudo_random_generator block_number)
        | ReceiveTransferRefund refund_transfer refund_routes \<Rightarrow>
            (case mediator_state of
               None \<Rightarrow> Inl AttributeError
             | Some state \<Rightarrow>
                 handle_refundtransfer ch state refund_transfer refund_routes
                   channelidentifiers_to_channels pseudo_random_generator block_number)
        | ReceiveSecretReveal change_secret change_secrethash change_sender \<Rightarrow>
            (case mediator_state of
               None \<Rightarrow> Inl AttributeError
             | Some state \<Rightarrow>
                 handle_secretreveal ch state change_secret change_secrethash
                   change_sender False channelidentifiers_to_channels
                   pseudo_random_generator block_number)
        | ContractReceiveSecretReveal change_secret change_secrethash change_sender \<Rightarrow>
            (case mediator_state of
               None \<Rightarrow> Inl AttributeError
             | Some state \<Rightarrow>
                 handle_secretreveal ch state change_secret change_secrethash
                   change_sender True channelidentifiers_to_channels
                   pseudo_random_generator block_number)
        | ReceiveUnlock message_identifier balance_proof' \<Rightarrow>
            (case mediator_state of
               None \<Rightarrow> Inl AttributeError
             | Some state \<Rightarrow>
                 (case handle_unlock ch state message_identifier balance_proof'
                         channelidentifiers_to_channels of
                    (iteration, chans') \<Rightarrow> Inr (iteration, chans', pseudo_random_generator)))
        | ReceiveLockExpired from_route \<Rightarrow>
            (case handle_lock_expired ch from_route channelidentifiers_to_channels of
               (iteration, chans') \<Rightarrow> Inr (iteration, chans', pseudo_random_generator))
        | OtherStateChange \<Rightarrow> unchanged)"

definition state_transition ::
  "'h ChannelModule \<Rightarrow> MediatorTransferState option \<Rightarrow> state_change \<Rightarrow> 'h ChannelMap \<Rightarrow> prng
    \<Rightarrow> int \<Rightarrow> exception + (TransitionResult \<times> 'h ChannelMap \<times> prng)" where
  "state_transition ch mediator_state state_change' channelidentifiers_to_channels
      pseudo_random_generator block_number =
    (case state_transition_dispatch ch mediator_state state_change'
            channelidentifiers_to_channels pseudo_random_generator block_number of
       Inl e \<Rightarrow> Inl e
     | Inr (iteration, chans', prng') \<Rightarrow>
         (case new_state iteration of
            None \<Rightarrow> Inr (clear_if_finalized iteration, chans', prng')
          | Some state' \<Rightarrow>
              (case sanity_check state' of
                 Inl e \<Rightarrow> Inl e
               | Inr _ \<Rightarrow> Inr (clear_if_finalized iteration, chans', prng'))))"

text \<open>The transition result of a run, without the channel map and the generator.\<close>

definition result_of ::
  "exception + (TransitionResult \<times> 'h ChannelMap \<times> prng) \<Rightarrow> exception + TransitionResult" where
  "result_of r = (case r of Inl e \<Rightarrow> Inl e | Inr (iteration, _, _) \<Rightarrow> Inr iteration)"

section \<open>The transport (raiden/network/protocol.py)\<close>

text \<open>
  Byte strings are lists of numbers; node addresses are byte strings, since an echohash
  is the hash of message data followed by an address. An \<open>AsyncResult\<close> object is known
  by the number under which the table \<open>async_results\<close> holds its value (\<open>None\<close> while
  it is not ready); a new object gets the next free number.
\<close>

type_synonym bytes = "nat list"
type_synonym host_port = nat
type_synonym future = nat

text \<open>
  The message classes of raiden/messages.py, outside the files verified here,
  as far as protocol.py tells them apart: \<open>Ack\<close> (sender, echo), \<open>Ping\<close> (nonce, sender)
  and every other signed message (sender, the optional attribute \<open>token\<close>, content);
  \<open>NotAMessage\<close> is a decoded object of any other class.
\<close>

datatype message =
  Ack bytes bytes
  | Ping nat bytes
  | Signed bytes "bytes option" bytes
  | NotAMessage

fun message_sender :: "message \<Rightarrow> exception + bytes" where
  "message_sender (Ack sender' _) = Inr sender'"
| "message_sender (Ping _ sender') = Inr sender'"
| "message_sender (Signed sender' _ _) = Inr sender'"
| "message_sender NotAMessage = Inl AttributeError"

fun is_Ack :: "message \<Rightarrow> bool" where
  "is_Ack (Ack _ _) = True"
| "is_Ack _ = False"

fun is_Ping :: "message \<Rightarrow> bool" where
  "is_Ping (Ping _ _) = True"
| "is_Ping _ = False"

text \<open>\<open>Ping\<close> is a subclass of \<open>SignedMessage\<close>; \<open>Ack\<close> is not.\<close>

fun is_SignedMessage :: "message \<Rightarrow> bool" where
  "is_SignedMessage (Ping _ _) = True"
| "is_SignedMessage (Signed _ _ _) = True"
| "is_SignedMessage _ = False"

text \<open>\<open>getattr(message, 'token', '')\<close>\<close>

fun message_token :: "message \<Rightarrow> bytes" where
  "message_token (Signed _ (Some token') _) = token'"
| "message_token _ = []"

record SentMessageState =
  async_result :: future
  receiver_address :: bytes

record HealthEvents =
  event_healthy :: bool
  event_unhealthy :: bool

datatype greenlet = Healthcheck bytes | SingleQueueSend bytes bytes

text \<open>
  What the protocol is given from outside: the address of the node, the functions
  \<open>sha3\<close>, \<open>isaddress\<close>, \<open>decode\<close> and the method \<open>encode\<close> of the messages (all from
  modules outside the files verified here), and the handler \<open>on_message\<close> of
  the host. The handler works on a host state of an arbitrary type \<open>'host\<close>; it returns
  the exception that it raises, if any, and the host state that it leaves.
\<close>

record 'host Raiden =
  our_address :: bytes
  sha3 :: "bytes \<Rightarrow> bytes"
  isaddress :: "bytes \<Rightarrow> bool"
  decode :: "bytes \<Rightarrow> message"
  encode :: "message \<Rightarrow> bytes"
  on_message :: "'host \<Rightarrow> message \<Rightarrow> bytes \<Rightarrow> exception option \<times> 'host"

text \<open>
  The attributes of \<open>RaidenProtocol\<close>. \<open>get_host_port\<close> is the cached discovery lookup
  as it answers at the moment (it can raise); \<open>transport_started\<close> is
  \<open>transport.server.started\<close>. Two traces record the calls that leave the protocol:
  \<open>transport_sent\<close> the calls of \<open>transport.send\<close> and \<open>on_message_calls\<close> the calls of
  the handler of the host. The spawned tasks are only listed in \<open>greenlets\<close>; they run
  after the call that spawns them has returned.
\<close>

record 'host RaidenProtocol =
  receivedhashes_to_acks :: "bytes \<rightharpoonup> host_port \<times> bytes"
  senthashes_to_states :: "bytes \<rightharpoonup> SentMessageState"
  channel_queue :: "bytes \<times> bytes \<rightharpoonup> bytes list"
  addresses_events :: "bytes \<rightharpoonup> HealthEvents"
  nodeaddresses_to_nonces :: "bytes \<rightharpoonup> nat"
  greenlets :: "greenlet list"
  async_results :: "(bool option) list"
  get_host_port :: "bytes \<Rightarrow> exception + host_port"
  transport_started :: bool
  transport_sent :: "(host_port \<times> bytes) list"
  on_message_calls :: "(message \<times> bytes) list"
  host :: 'host

text \<open>
  Modelled from the spec: the constant \<open>UDP_MAX_MESSAGE_SIZE\<close> of raiden/constants.py
  (missing), 1200 bytes by the specification.
\<close>

definition UDP_MAX_MESSAGE_SIZE :: nat where
  "UDP_MAX_MESSAGE_SIZE = 1200"

definition start_health_check :: "'host RaidenProtocol \<Rightarrow> bytes \<Rightarrow> 'host RaidenProtocol" where
  "start_health_check self receiver_address' =
    (if receiver_address' \<notin> dom (addresses_events self)
     then
       let self1 =
             (if receiver_address' \<in> dom (nodeaddresses_to_nonces self) then self
              else self\<lparr>nodeaddresses_to_nonces :=
                          (nodeaddresses_to_nonces self)(receiver_address' \<mapsto> 0)\<rparr>);
           events' = \<lparr>event_healthy = False, event_unhealthy = False\<rparr>;
           self2 = self1\<lparr>addresses_events :=
                           (addresses_events self1)(receiver_address' \<mapsto> events')\<rparr>
       in self2\<lparr>greenlets := greenlets self2 @ [Healthcheck receiver_address']\<rparr>
     else self)"

definition get_health_events :: "'host RaidenProtocol \<Rightarrow> bytes \<Rightarrow> 'host RaidenProtocol" where
  "get_health_events self receiver_address' =
    (if receiver_address' \<notin> dom (addresses_events self)
     then start_health_check self receiver_address'
     else self)"

text \<open>
  \<open>get_channel_queue\<close> returns the queue under the key (receiver, token), which it
  creates if there is none; here it returns the protocol with that queue in place, and
  the queue is known by its key.
\<close>

definition get_channel_queue ::
  "'host RaidenProtocol \<Rightarrow> bytes \<Rightarrow> bytes \<Rightarrow> 'host RaidenProtocol" where
  "get_channel_queue self receiver_address' token_address' =
    (let key = (receiver_address', token_address') in
     if key \<in> dom (channel_queue self) then self
     else
       let self1 = self\<lparr>channel_queue := (channel_queue self)(key \<mapsto> [])\<rparr>;
           self2 = get_health_events self1 receiver_address'
       in self2\<lparr>greenlets :=
                   greenlets self2 @ [SingleQueueSend receiver_address' token_address']\<rparr>)"

definition queue_put ::
  "'host RaidenProtocol \<Rightarrow> bytes \<times> bytes \<Rightarrow> bytes \<Rightarrow> 'host RaidenProtocol" where
  "queue_put self key item =
    self\<lparr>channel_queue :=
           (channel_queue self)
             (key \<mapsto> (case channel_queue self key of None \<Rightarrow> [] | Some q \<Rightarrow> q) @ [item])\<rparr>"

definition send_async ::
  "'host Raiden \<Rightarrow> 'host RaidenProtocol \<Rightarrow> bytes \<Rightarrow> message
    \<Rightarrow> exception + (future \<times> 'host RaidenProtocol)" where
  "send_async raiden self receiver_address' message' =
    (if \<not> isaddress raiden receiver_address' then Inl ValueError
     else if is_Ack message' \<or> is_Ping message' then Inl ValueError
     else
       let messagedata = encode raiden message';
           echohash = sha3 raiden (messagedata @ receiver_address')
       in if length messagedata > UDP_MAX_MESSAGE_SIZE then Inl ValueError
          else
            let token_address' = message_token message' in
            case senthashes_to_states self echohash of
              None \<Rightarrow>
                let async_result' = length (async_results self);
                    self1 = self\<lparr>async_results := async_results self @ [None]\<rparr>;
                    self2 = self1\<lparr>senthashes_to_states :=
                                    (senthashes_to_states self1)
                                      (echohash \<mapsto> \<lparr>async_result = async_result',
                                                    receiver_address = receiver_address'\<rparr>)\<rparr>;
                    self3 = get_channel_queue self2 receiver_address' token_address';
                    self4 = queue_put self3 (receiver_address', token_address') messagedata
                in Inr (async_result', self4)
            | Some waitack \<Rightarrow> Inr (async_result waitack, self))"

text \<open>\<open>_maybe_send_ack\<close> of the source.\<close>

definition maybe_send_ack_raw ::
  "'host RaidenProtocol \<Rightarrow> host_port \<Rightarrow> bytes \<Rightarrow> 'host RaidenProtocol" where
  "maybe_send_ack_raw self host_port' messagedata =
    (if transport_started self
     then self\<lparr>transport_sent := transport_sent self @ [(host_port', messagedata)]\<rparr>
     else self)"

definition maybe_send_ack ::
  "'host Raiden \<Rightarrow> 'host RaidenProtocol \<Rightarrow> bytes \<Rightarrow> message
    \<Rightarrow> exception + 'host RaidenProtocol" where
  "maybe_send_ack raiden self receiver_address' ack_message =
    (if \<not> isaddress raiden receiver_address' then Inl ValueError
     else
       case ack_message of
         Ack _ echo' \<Rightarrow>
           let messagedata = encode raiden ack_message in
           (case get_host_port self receiver_address' of
              Inl e \<Rightarrow> Inl e
            | Inr host_port' \<Rightarrow>
                let self1 = self\<lparr>receivedhashes_to_acks :=
                                   (receivedhashes_to_acks self)
                                     (echo' \<mapsto> (host_port', messagedata))\<rparr>
                in Inr (maybe_send_ack_raw self1 host_port' messagedata))
       | _ \<Rightarrow> Inl ValueError)"

definition set_async_result ::
  "'host RaidenProtocol \<Rightarrow> future \<Rightarrow> bool \<Rightarrow> 'host RaidenProtocol" where
  "set_async_result self result' value' =
    self\<lparr>async_results := (async_results self)[result' := Some value']\<rparr>"

text \<open>
  \<open>receive\<close>. The exceptions that the two \<open>except\<close> clauses around the handler swallow,
  and those that the \<open>except\<close> clause around \<open>maybe_send_ack\<close> swallows first.
\<close>

definition handler_exceptions :: "exception list" where
  "handler_exceptions =
    [UnknownAddress, InvalidNonce, TransferWhenClosed, TransferUnwanted,
     UnknownTokenAddress, InvalidLocksRoot]"

definition ack_exceptions :: "exception list" where
  "ack_exceptions = [InvalidAddress, UnknownAddress]"

definition receive ::
  "'host Raiden \<Rightarrow> 'host RaidenProtocol \<Rightarrow> bytes \<Rightarrow> exception + 'host RaidenProtocol" where
  "receive raiden self data =
    (if length data > UDP_MAX_MESSAGE_SIZE then Inr self
     else
       let message' = decode raiden data;
           echohash = sha3 raiden (data @ our_address raiden)
       in case receivedhashes_to_acks self echohash of
            Some (host_port', messagedata) \<Rightarrow>
              (case message_sender message' of
                 Inl e \<Rightarrow> Inl e
               | Inr sender' \<Rightarrow>
                   (case get_host_port self sender' of
                      Inl e \<Rightarrow> Inl e
                    | Inr current_host_port \<Rightarrow>
                        let self1 =
                              (if host_port' \<noteq> current_host_port
                               then self\<lparr>receivedhashes_to_acks :=
                                           (receivedhashes_to_acks self)
                                             (echohash \<mapsto> (current_host_port, messagedata))\<rparr>
                               else self)
                        in Inr (maybe_send_ack_raw self1 current_host_port messagedata)))
          | None \<Rightarrow>
              if is_Ack message'
              then
                (case message' of
                   Ack _ echo' \<Rightarrow>
                     (case senthashes_to_states self echo' of
                        None \<Rightarrow> Inr self
                      | Some waitack \<Rightarrow> Inr (set_async_result self (async_result waitack) True))
                 | _ \<Rightarrow> Inr self)
              else if is_SignedMessage message'
              then
                (case on_message raiden (host self) message' echohash of
                   (raised, host') \<Rightarrow>
                     let self1 = self\<lparr>host := host',
                                      on_message_calls :=
                                        on_message_calls self @ [(message', echohash)]\<rparr>
                     in case raised of
                          Some e \<Rightarrow> if e \<in> set handler_exceptions then Inr self1 else Inl e
                        | None \<Rightarrow>
                            let ack = Ack (our_address raiden) echohash in
                            (case message_sender message' of
                               Inl e \<Rightarrow> Inl e
                             | Inr sender' \<Rightarrow>
                                 (case maybe_send_ack raiden self1 sender' ack of
                                    Inl e \<Rightarrow>
                                      if e \<in> set ack_exceptions \<or> e \<in> set handler_exceptions
                                      then Inr self1 else Inl e
                                  | Inr self2 \<Rightarrow> Inr self2)))
              else Inr self)"

text \<open>A datagram received after another one; the traces and the ack cache of a run.\<close>

definition then_receive ::
  "'host Raiden \<Rightarrow> exception + 'host RaidenProtocol \<Rightarrow> bytes
    \<Rightarrow> exception + 'host RaidenProtocol" where
  "then_receive raiden r data = (case r of Inl e \<Rightarrow> Inl e | Inr self \<Rightarrow> receive raiden self data)"

definition handler_calls_of ::
  "exception + 'host RaidenProtocol \<Rightarrow> exception + (message \<times> bytes) list" where
  "handler_calls_of r = (case r of Inl e \<Rightarrow> Inl e | Inr self \<Rightarrow> Inr (on_message_calls self))"

definition sent_of ::
  "exception + 'host RaidenProtocol \<Rightarrow> exception + (host_port \<times> bytes) list" where
  "sent_of r = (case r of Inl e \<Rightarrow> Inl e | Inr self \<Rightarrow> Inr (transport_sent self))"

definition future_of ::
  "exception + (future \<times> 'host RaidenProtocol) \<Rightarrow> exception + future" where
  "future_of r = (case r of Inl e \<Rightarrow> Inl e | Inr (result', _) \<Rightarrow> Inr result')"

definition then_send_async ::
  "'host Raiden \<Rightarrow> exception + (future \<times> 'host RaidenProtocol) \<Rightarrow> bytes \<Rightarrow> message
    \<Rightarrow> exception + (future \<times> 'host RaidenProtocol)" where
  "then_send_async raiden r receiver_address' message' =
    (case r of Inl e \<Rightarrow> Inl e | Inr (_, self) \<Rightarrow> send_async raiden self receiver_address' message')"

definition queues_of ::
  "exception + (future \<times> 'host RaidenProtocol) \<Rightarrow> bytes \<times> bytes \<Rightarrow> bytes list option" where
  "queues_of r key = (case r of Inl e \<Rightarrow> None | Inr (_, self) \<Rightarrow> channel_queue self key)"

section \<open>Concrete instances\<close>

subsection \<open>A concrete host and a fresh protocol\<close>

text \<open>
  A node with the address [1] that hears from the peer [2] at the endpoint 7. The hash
  is the identity, an address is one byte, the datagram [9] decodes to a signed message
  of the peer, and the handler counts the messages it accepts. \<open>ex_raiden_rejecting\<close>
  is the same host with a handler that raises \<open>InvalidNonce\<close>.
\<close>

definition ex_message :: message where
  "ex_message = Signed [2] None [9]"

fun ex_encode :: "message \<Rightarrow> bytes" where
  "ex_encode (Ack sender' echo') = 0 # sender' @ echo'"
| "ex_encode (Ping nonce' sender') = 1 # nonce' # sender'"
| "ex_encode (Signed sender' _ content) = content"
| "ex_encode NotAMessage = []"

definition ex_raiden :: "nat Raiden" where
  "ex_raiden =
    \<lparr>our_address = [1], sha3 = (\<lambda>b. b), isaddress = (\<lambda>a. length a = 1),
     decode = (\<lambda>d. if d = [9] then ex_message else NotAMessage),
     encode = ex_encode,
     on_message = (\<lambda>h m e. (None, Suc h))\<rparr>"

definition ex_raiden_rejecting :: "nat Raiden" where
  "ex_raiden_rejecting = ex_raiden\<lparr>on_message := (\<lambda>h m e. (Some InvalidNonce, h))\<rparr>"

definition ex_protocol :: "nat RaidenProtocol" where
  "ex_protocol =
    \<lparr>receivedhashes_to_acks = Map.empty, senthashes_to_states = Map.empty,
     channel_queue = Map.empty, addresses_events = Map.empty,
     nodeaddresses_to_nonces = Map.empty, greenlets = [], async_results = [],
     get_host_port = (\<lambda>a. if a = [2] then Inr 7 else Inl UnknownAddress),
     transport_started = True, transport_sent = [], on_message_calls = [], host = 0\<rparr>"

subsection \<open>A concrete channel module and a mediation in progress\<close>

text \<open>
  The examples below run the mediator on a channel module whose hidden data is a list of
  (secrethash, secret) pairs: on a channel end it is the secrets registered on that end,
  on a channel an empty list says that the channel is open.
\<close>

definition ex_ch :: "(nat \<times> nat) list ChannelModule" where
  "ex_ch =
    \<lparr>MAXIMUM_PENDING_TRANSFERS = 160,
     DEFAULT_NUMBER_OF_CONFIRMATIONS_BLOCK = 5,
     CHANNEL_STATE_OPENED = ''opened'',
     CHANNEL_IDENTIFIER_GLOBAL_QUEUE = 0,
     message_identifier_from_prng = (\<lambda>g. (g, Suc g)),
     channel_get_number_of_pending_transfers = (\<lambda>e. 0),
     channel_get_distributable = (\<lambda>our partner. 10),
     channel_get_status = (\<lambda>c. if channel_rest c = [] then ''opened'' else ''closed''),
     channel_is_valid_amount = (\<lambda>e a. 0 < a),
     channel_is_secret_known = (\<lambda>e h. map_of (end_rest e) h \<noteq> None),
     channel_get_secret = (\<lambda>e h. case map_of (end_rest e) h of None \<Rightarrow> 0 | Some s \<Rightarrow> s),
     channel_get_lock = (\<lambda>e h. secrethashes_to_lockedlocks e h),
     channel_compute_proof_for_lock = (\<lambda>e s l. s),
     channel_register_secret =
       (\<lambda>c s h. c\<lparr>partner_state := (partner_state c)\<lparr>end_rest := (h, s) # end_rest (partner_state c)\<rparr>\<rparr>),
     channel_register_onchain_secret =
       (\<lambda>c s h. c\<lparr>partner_state := (partner_state c)\<lparr>end_rest := (h, s) # end_rest (partner_state c)\<rparr>\<rparr>),
     channel_delete_secrethash_endstate =
       (\<lambda>e h. e\<lparr>secrethashes_to_lockedlocks := (secrethashes_to_lockedlocks e)(h := None)\<rparr>),
     channel_send_lockedtransfer =
       (\<lambda>c i t a m p e h.
          (\<lparr>balance_proof = \<lparr>BalanceProof.channel_identifier = identifier c, sender = 0,
                              nonce = 1, transferred_amount = 0, locked_amount = a,
                              locksroot = 0\<rparr>,
            lock = \<lparr>amount = a, expiration = e, Lock.secrethash = h\<rparr>,
            payment_identifier = p, initiator = i, target = t,
            token = token_address c, signed = False\<rparr>, c)),
     channel_send_refundtransfer = (\<lambda>c i t a m p e h. (ChannelEvent 1, c)),
     channel_send_unlock = (\<lambda>c p m s h. (ChannelEvent 2, c)),
     channel_events_for_expired_lock = (\<lambda>c l g. (ChannelEvent 3, c, g)),
     channel_handle_receive_lockedtransfer = (\<lambda>c t. ((True, []), c)),
     channel_handle_refundtransfer = (\<lambda>t c sc. ((True, []), c)),
     channel_handle_unlock = (\<lambda>c sc. ((True, []), c)),
     channel_handle_receive_lock_expired = (\<lambda>c sc. ([], c))\<rparr>"

definition ex_lock :: Lock where
  "ex_lock = \<lparr>amount = 10, expiration = 100, Lock.secrethash = 7\<rparr>"

definition ex_payer_transfer :: LockedTransferState where
  "ex_payer_transfer =
    \<lparr>balance_proof = \<lparr>BalanceProof.channel_identifier = 1, sender = 11, nonce = 1,
                       transferred_amount = 0, locked_amount = 10, locksroot = 0\<rparr>,
     lock = ex_lock, payment_identifier = 1, initiator = 11, target = 13, token = 5,
     signed = True\<rparr>"

definition ex_payee_transfer :: LockedTransferState where
  "ex_payee_transfer =
    \<lparr>balance_proof = \<lparr>BalanceProof.channel_identifier = 2, sender = 0, nonce = 1,
                       transferred_amount = 0, locked_amount = 10, locksroot = 0\<rparr>,
     lock = ex_lock, payment_identifier = 1, initiator = 11, target = 13, token = 5,
     signed = False\<rparr>"

definition ex_pair :: MediationPairState where
  "ex_pair = new_MediationPairState ex_payer_transfer 12 ex_payee_transfer"

definition ex_state :: MediatorTransferState where
  "ex_state =
    \<lparr>MediatorTransferState.secrethash = 7, secret = None, transfers_pair = [ex_pair]\<rparr>"

definition ex_end :: "Address \<Rightarrow> (SecretHash \<rightharpoonup> Lock) \<Rightarrow> (nat \<times> nat) list
    \<Rightarrow> (nat \<times> nat) list NettingChannelEndState" where
  "ex_end a locks secrets =
    \<lparr>address = a, secrethashes_to_lockedlocks = locks, end_rest = secrets\<rparr>"

text \<open>
  The payer channel (key 1): reveal timeout 10, the partner (the payer, address 11) has
  the secret 42 registered for the secrethash 7. The payee channel (key 2): our end
  holds the pending lock.
\<close>

definition ex_payer_channel :: "(nat \<times> nat) list NettingChannelState" where
  "ex_payer_channel =
    \<lparr>identifier = 1, token_address = 5, token_network_identifier = 9,
     reveal_timeout = 10, settle_timeout = 50,
     our_state = ex_end 10 Map.empty [],
     partner_state = ex_end 11 [7 \<mapsto> ex_lock] [(7, 42)],
     channel_rest = []\<rparr>"

definition ex_payee_channel :: "(nat \<times> nat) list NettingChannelState" where
  "ex_payee_channel =
    \<lparr>identifier = 2, token_address = 5, token_network_identifier = 9,
     reveal_timeout = 10, settle_timeout = 50,
     our_state = ex_end 10 [7 \<mapsto> ex_lock] [],
     partner_state = ex_end 12 Map.empty [],
     channel_rest = []\<rparr>"

definition ex_chans :: "(nat \<times> nat) list ChannelMap" where
  "ex_chans = [1 \<mapsto> ex_payer_channel, 2 \<mapsto> ex_payee_channel]"

definition ex_state_paid :: MediatorTransferState where
  "ex_state_paid =
    \<lparr>MediatorTransferState.secrethash = 7, secret = Some 42,
     transfers_pair =
       [ex_pair\<lparr>payer_state := ''payer_secret_revealed'',
                payee_state := ''payee_balance_proof''\<rparr>]\<rparr>"

text \<open>The same channels, the payer channel with a reveal timeout of 100 blocks.\<close>

definition ex_chans_wide :: "(nat \<times> nat) list ChannelMap" where
  "ex_chans_wide = [1 \<mapsto> ex_payer_channel\<lparr>reveal_timeout := 100\<rparr>, 2 \<mapsto> ex_payee_channel]"

text \<open>The refund that the payee of \<open>ex_pair\<close> sends back, and the route through it.\<close>

definition ex_refund_transfer :: LockedTransferState where
  "ex_refund_transfer =
    \<lparr>balance_proof = \<lparr>BalanceProof.channel_identifier = 2, sender = 12, nonce = 1,
                       transferred_amount = 0, locked_amount = 10, locksroot = 0\<rparr>,
     lock = ex_lock, payment_identifier = 1, initiator = 11, target = 13, token = 5,
     signed = True\<rparr>"

definition ex_route :: RouteState where
  "ex_route = \<lparr>node_address = 12, RouteState.channel_identifier = 2\<rparr>"

text \<open>
  A mediator state without pairs, as \<open>handle_init\<close> creates it, and the route on which
  the payer transfer arrives.
\<close>

definition ex_state_new :: MediatorTransferState where
  "ex_state_new =
    \<lparr>MediatorTransferState.secrethash = 7, secret = None, transfers_pair = []\<rparr>"

definition ex_from_route :: RouteState where
  "ex_from_route = \<lparr>node_address = 11, RouteState.channel_identifier = 1\<rparr>"

section \<open>Auxiliary definitions\<close>

subsection \<open>The lifecycle and the refund in the words of the specification\<close>

text \<open>
  The lifecycle of the specification in its words: a state is fully paid when every pair
  has both sides in \<open>STATE_TRANSFER_PAID\<close>; the expiration cleanup threshold is crossed
  when the lock that our end of the first pair's payee channel holds for the state's
  secrethash lies more than \<open>DEFAULT_NUMBER_OF_CONFIRMATIONS_BLOCK\<close> blocks behind the
  block of the state change.
\<close>

definition fully_paid :: "MediatorTransferState \<Rightarrow> bool" where
  "fully_paid state =
    list_all (\<lambda>pair. payee_state pair \<in> set STATE_TRANSFER_PAID \<and>
                     payer_state pair \<in> set STATE_TRANSFER_PAID) (transfers_pair state)"

definition cleanup_threshold_crossed ::
  "'h ChannelModule \<Rightarrow> MediatorTransferState \<Rightarrow> int \<Rightarrow> 'h ChannelMap \<Rightarrow> bool" where
  "cleanup_threshold_crossed ch state state_change_block_number chans =
    (case transfers_pair state of
       [] \<Rightarrow> False
     | first_pair # _ \<Rightarrow>
         (case chans (BalanceProof.channel_identifier
                        (balance_proof (payee_transfer first_pair))) of
            None \<Rightarrow> False
          | Some channel_state \<Rightarrow>
              (case secrethashes_to_lockedlocks (our_state channel_state)
                      (MediatorTransferState.secrethash state) of
                 None \<Rightarrow> False
               | Some locked_lock \<Rightarrow>
                   state_change_block_number >
                   expiration locked_lock + DEFAULT_NUMBER_OF_CONFIRMATIONS_BLOCK ch)))"

text \<open>
  The channel that \<open>mediate_transfer\<close> refunds on and the transfer that it refunds: the
  payer channel and payer transfer of the first pair if there is one, else the payer
  channel and the payer transfer of the call.
\<close>

definition refund_target ::
  "MediatorTransferState \<Rightarrow> 'h NettingChannelState \<Rightarrow> LockedTransferState \<Rightarrow> 'h ChannelMap
    \<Rightarrow> ('h NettingChannelState \<times> LockedTransferState) option" where
  "refund_target state payer_channel payer_transfer' chans =
    (case transfers_pair state of
       [] \<Rightarrow> Some (payer_channel, payer_transfer')
     | original_pair # _ \<Rightarrow>
         (case chans (BalanceProof.channel_identifier
                        (balance_proof (payer_transfer original_pair))) of
            None \<Rightarrow> None
          | Some original_channel \<Rightarrow> Some (original_channel, payer_transfer original_pair)))"

subsection \<open>The expiry step, pair by pair\<close>

text \<open>
  What one pass of the loop of \<open>set_expired_pairs\<close> does to a pair, and the events
  that it appends for the pair.
\<close>

definition expired_pair :: "int \<Rightarrow> MediationPairState \<Rightarrow> MediationPairState" where
  "expired_pair block_number pair =
    (if get_pending_transfer_pairs [pair] = [] then pair
     else pair\<lparr>payer_state :=
                  (if block_number > expiration (lock (payer_transfer pair)) \<and>
                      payer_state pair \<noteq> ''payer_expired''
                   then ''payer_expired'' else payer_state pair),
               payee_state :=
                  (if block_number > expiration (lock (payee_transfer pair)) \<and>
                      payee_state pair \<noteq> ''payee_expired''
                   then ''payee_expired'' else payee_state pair)\<rparr>)"

definition expired_events :: "int \<Rightarrow> MediationPairState \<Rightarrow> event list" where
  "expired_events block_number pair =
    (if get_pending_transfer_pairs [pair] = [] then []
     else (if block_number > expiration (lock (payer_transfer pair)) \<and>
              payer_state pair \<noteq> ''payer_expired''
           then [EventUnlockClaimFailed (payment_identifier (payer_transfer pair))
                   (Lock.secrethash (lock (payer_transfer pair))) ''lock expired'']
           else []) @
          (if block_number > expiration (lock (payee_transfer pair)) \<and>
              payee_state pair \<noteq> ''payee_expired''
           then [EventUnlockFailed (payment_identifier (payee_transfer pair))
                   (Lock.secrethash (lock (payee_transfer pair))) ''lock expired'']
           else []))"

subsection \<open>The selection of the on-chain reveal\<close>

fun is_ContractSendSecretReveal :: "event \<Rightarrow> bool" where
  "is_ContractSendSecretReveal (ContractSendSecretReveal _ _) = True"
| "is_ContractSendSecretReveal _ = False"

text \<open>
  The selection of the on-chain reveal in the words of the specification: a pair whose
  payer lock fails \<open>is_safe_to_wait\<close> on the payer channel and whose secret is registered
  on the partner end of the payer channel; the first such pair among the pending pairs,
  from latest to earliest.
\<close>

definition unsafe_with_known_secret ::
  "'h ChannelModule \<Rightarrow> 'h ChannelMap \<Rightarrow> int \<Rightarrow> MediationPairState \<Rightarrow> bool" where
  "unsafe_with_known_secret ch chans block_number pair =
    (case chans (BalanceProof.channel_identifier (balance_proof (payer_transfer pair))) of
       None \<Rightarrow> False
     | Some payer_channel \<Rightarrow>
         (case is_safe_to_wait (expiration (lock (payer_transfer pair)))
                 (reveal_timeout payer_channel) block_number of
            Inl _ \<Rightarrow> False
          | Inr (safe_to_wait, _) \<Rightarrow> \<not> safe_to_wait) \<and>
         channel_is_secret_known ch (partner_state payer_channel)
           (Lock.secrethash (lock (payer_transfer pair))))"

definition first_unsafe_pair ::
  "'h ChannelModule \<Rightarrow> 'h ChannelMap \<Rightarrow> int \<Rightarrow> MediationPairState list
    \<Rightarrow> MediationPairState option" where
  "first_unsafe_pair ch chans block_number transfers_pair' =
    find (unsafe_with_known_secret ch chans block_number)
      (rev (get_pending_transfer_pairs transfers_pair'))"

section \<open>Properties\<close>

subsection \<open>The danger zone\<close>

text \<open>
  C3. Under the three assertions of \<open>is_safe_to_wait\<close> (positive block number, positive
  reveal timeout, lock expiration above the reveal timeout) the function returns true
  exactly when \<open>lock_expiration - block_number > reveal_timeout\<close>: true when the
  difference is \<open>reveal_timeout + 1\<close>, false when it is \<open>reveal_timeout\<close>.
\<close>

theorem is_safe_to_wait_iff:
  assumes "block_number > 0" and "reveal_timeout' > 0" and "lock_expiration > reveal_timeout'"
  shows "\<exists>safe msg. is_safe_to_wait lock_expiration reveal_timeout' block_number = Inr (safe, msg) \<and>
           (safe \<longleftrightarrow> lock_expiration - block_number > reveal_timeout') \<and>
           (lock_expiration - block_number = reveal_timeout' + 1 \<longrightarrow> safe) \<and>
           (lock_expiration - block_number = reveal_timeout' \<longrightarrow> \<not> safe)"
  using assms by (simp add: is_safe_to_wait_def Let_def)

theorem is_safe_to_wait_iff_witness:
  "is_safe_to_wait 100 10 89 = Inr (True, None) \<and>
   is_safe_to_wait 100 10 90 = Inr (False, Some (LockTimeoutUnsafe 10 10 100 90))"
  using is_safe_to_wait_iff [of 89 10 100] is_safe_to_wait_iff [of 90 10 100]
  by (simp add: is_safe_to_wait_def Let_def)

subsection \<open>The Block transition\<close>

lemma set_expired_pairs_loop_eq:
  "set_expired_pairs_loop ps bn acc =
     (map (expired_pair bn) ps, acc @ concat (map (expired_events bn) ps))"
proof (induction ps arbitrary: acc)
  case Nil
  show ?case by simp
next
  case (Cons p ps)
  show ?case
    by (simp add: Cons.IH expired_pair_def expired_events_def Let_def split: prod.splits)
qed

lemma set_expired_pairs_eq:
  "set_expired_pairs ps bn = (map (expired_pair bn) ps, concat (map (expired_events bn) ps))"
  by (simp add: set_expired_pairs_def set_expired_pairs_loop_eq)

lemma pending_single:
  "get_pending_transfer_pairs [pair] = [] \<longleftrightarrow>
     payee_state pair \<in> set STATE_TRANSFER_FINAL \<and> payer_state pair \<in> set STATE_TRANSFER_FINAL"
  by (simp add: get_pending_transfer_pairs_def)

lemma events_split:
  assumes "i < length ps"
  shows "concat (map f ps) = concat (map f (take i ps)) @ f (ps ! i) @ concat (map f (drop (Suc i) ps))"
proof -
  have "ps = take i ps @ ps ! i # drop (Suc i) ps"
    using assms by (rule id_take_nth_drop)
  then have "concat (map f ps) = concat (map f (take i ps @ ps ! i # drop (Suc i) ps))"
    by simp
  then show ?thesis by simp
qed

lemma result_ofD:
  "result_of r = Inr iteration \<Longrightarrow> \<exists>chans' prng'. r = Inr (iteration, chans', prng')"
  by (auto simp: result_of_def split: sum.splits)

lemma onchain_loop_step:
  assumes "events_for_onchain_secretreveal_loop ch chans (p # ps) bn = Inr evs"
  shows "\<exists>c safe msg.
           chans (BalanceProof.channel_identifier (balance_proof (payer_transfer p))) = Some c \<and>
           is_safe_to_wait (expiration (lock (payer_transfer p))) (reveal_timeout c) bn =
             Inr (safe, msg) \<and>
           (if \<not> safe \<and> channel_is_secret_known ch (partner_state c)
                            (Lock.secrethash (lock (payer_transfer p)))
            then evs = [ContractSendSecretReveal (expiration (lock (payer_transfer p)))
                          (channel_get_secret ch (partner_state c)
                             (Lock.secrethash (lock (payer_transfer p))))]
            else events_for_onchain_secretreveal_loop ch chans ps bn = Inr evs)"
  using assms
  by (auto simp: get_payer_channel_def Let_def
        secret_registry_events_for_onchain_secretreveal_def
      split: option.splits sum.splits prod.splits if_splits)

lemma onchain_loop_selects:
  "events_for_onchain_secretreveal_loop ch chans ps bn = Inr evs \<Longrightarrow>
   (case find (unsafe_with_known_secret ch chans bn) ps of
      None \<Rightarrow> evs = []
    | Some pair \<Rightarrow>
        \<exists>payer_channel.
          chans (BalanceProof.channel_identifier (balance_proof (payer_transfer pair))) =
            Some payer_channel \<and>
          evs = [ContractSendSecretReveal (expiration (lock (payer_transfer pair)))
                   (channel_get_secret ch (partner_state payer_channel)
                      (Lock.secrethash (lock (payer_transfer pair))))])"
proof (induction ps)
  case Nil
  then show ?case by simp
next
  case (Cons p ps)
  from onchain_loop_step [OF Cons.prems] obtain c safe msg where
    c: "chans (BalanceProof.channel_identifier (balance_proof (payer_transfer p))) = Some c"
    and w: "is_safe_to_wait (expiration (lock (payer_transfer p))) (reveal_timeout c) bn =
              Inr (safe, msg)"
    and r: "if \<not> safe \<and> channel_is_secret_known ch (partner_state c)
                            (Lock.secrethash (lock (payer_transfer p)))
            then evs = [ContractSendSecretReveal (expiration (lock (payer_transfer p)))
                          (channel_get_secret ch (partner_state c)
                             (Lock.secrethash (lock (payer_transfer p))))]
            else events_for_onchain_secretreveal_loop ch chans ps bn = Inr evs"
    by blast
  have u: "unsafe_with_known_secret ch chans bn p \<longleftrightarrow>
             \<not> safe \<and> channel_is_secret_known ch (partner_state c)
                            (Lock.secrethash (lock (payer_transfer p)))"
    by (simp add: unsafe_with_known_secret_def c w)
  show ?case
  proof (cases "unsafe_with_known_secret ch chans bn p")
    case True
    with r u c show ?thesis by simp
  next
    case False
    with r u have "events_for_onchain_secretreveal_loop ch chans ps bn = Inr evs" by simp
    from Cons.IH [OF this] False show ?thesis by simp
  qed
qed

lemma expired_events_not_reveal:
  "filter is_ContractSendSecretReveal (concat (map (expired_events bn) ps)) = []"
  by (induction ps) (auto simp: expired_events_def)

lemma reveal_events_all_reveal:
  "events_for_onchain_secretreveal_loop ch chans ps bn = Inr evs \<Longrightarrow>
   filter is_ContractSendSecretReveal evs = evs"
proof (induction ps)
  case Nil
  then show ?case by simp
next
  case (Cons p ps)
  then show ?case
    by (auto simp: get_payer_channel_def Let_def
          secret_registry_events_for_onchain_secretreveal_def
        split: option.splits sum.splits prod.splits if_splits)
qed

lemma handle_block_cases:
  assumes "handle_block ch ms n chans prng bn = Inr (iteration, chans', prng')"
    and "new_state iteration \<noteq> None"
  shows "\<exists>revs. events_for_onchain_secretreveal ch chans (transfers_pair ms) bn = Inr revs \<and>
           iteration = \<lparr>new_state = Some (ms\<lparr>transfers_pair := map (expired_pair bn) (transfers_pair ms)\<rparr>),
                        events = concat (map (expired_events bn) (transfers_pair ms)) @ revs\<rparr> \<and>
           chans' = chans \<and> prng' = prng"
  using assms
  by (auto simp: handle_block_def Let_def set_expired_pairs_eq
      split: list.splits option.splits sum.splits prod.splits if_splits)

text \<open>
  C1 (amended). For every Block state change on which \<open>handle_block\<close> returns a mediator
  state (it does not raise and does not take the return that cleans up an expired
  lock), the events hold exactly one \<open>ContractSendSecretReveal\<close>, the one of the first
  pair among the pending pairs, from latest to earliest, whose payer lock fails
  \<open>is_safe_to_wait\<close> and whose secret is registered on the partner end of the payer
  channel; they hold none when there is no such pair. For a payer lock expiration of 100
  and a reveal timeout of 10 the blocks 91 and 90 each produce the reveal and the block
  89 produces none.
\<close>

theorem handle_block_onchain_reveal:
  assumes "handle_block ch mediator_state state_change_block_number chans prng block_number =
             Inr (iteration, chans', prng')"
    and "new_state iteration \<noteq> None"
  shows
    "case first_unsafe_pair ch chans block_number (transfers_pair mediator_state) of
       None \<Rightarrow> filter is_ContractSendSecretReveal (events iteration) = []
     | Some pair \<Rightarrow>
         \<exists>payer_channel.
           chans (BalanceProof.channel_identifier (balance_proof (payer_transfer pair))) =
             Some payer_channel \<and>
           filter is_ContractSendSecretReveal (events iteration) =
             [ContractSendSecretReveal (expiration (lock (payer_transfer pair)))
                (channel_get_secret ch (partner_state payer_channel)
                   (Lock.secrethash (lock (payer_transfer pair))))]"
proof -
  from handle_block_cases [OF assms] obtain revs where
    r: "events_for_onchain_secretreveal ch chans (transfers_pair mediator_state) block_number = Inr revs"
    and ev: "events iteration =
       concat (map (expired_events block_number) (transfers_pair mediator_state)) @ revs"
    by auto
  from r have loop: "events_for_onchain_secretreveal_loop ch chans
      (rev (get_pending_transfer_pairs (transfers_pair mediator_state))) block_number = Inr revs"
    by (simp add: events_for_onchain_secretreveal_def Let_def)
  have f: "filter is_ContractSendSecretReveal (events iteration) = revs"
    by (simp add: ev expired_events_not_reveal reveal_events_all_reveal [OF loop])
  show ?thesis
    using onchain_loop_selects [OF loop]
    by (simp add: first_unsafe_pair_def f split: option.splits)
qed

lemmas ex_defs = ex_state_def ex_pair_def
        new_MediationPairState_def ex_payer_transfer_def ex_payee_transfer_def ex_lock_def
        ex_chans_def ex_payer_channel_def ex_payee_channel_def ex_end_def ex_ch_def

lemmas block_defs = result_of_def handle_block_def Let_def
        events_for_onchain_secretreveal_def get_pending_transfer_pairs_def
        STATE_TRANSFER_FINAL_def get_payer_channel_def is_safe_to_wait_def
        secret_registry_events_for_onchain_secretreveal_def set_expired_pairs_def

theorem handle_block_onchain_reveal_witness:
  "first_unsafe_pair ex_ch ex_chans 91 (transfers_pair ex_state) = Some ex_pair \<and>
   result_of (handle_block ex_ch ex_state 91 ex_chans 0 91) =
     Inr \<lparr>new_state = Some ex_state, events = [ContractSendSecretReveal 100 42]\<rparr> \<and>
   first_unsafe_pair ex_ch ex_chans 90 (transfers_pair ex_state) = Some ex_pair \<and>
   result_of (handle_block ex_ch ex_state 90 ex_chans 0 90) =
     Inr \<lparr>new_state = Some ex_state, events = [ContractSendSecretReveal 100 42]\<rparr> \<and>
   first_unsafe_pair ex_ch ex_chans 89 (transfers_pair ex_state) = None \<and>
   result_of (handle_block ex_ch ex_state 89 ex_chans 0 89) =
     Inr \<lparr>new_state = Some ex_state, events = []\<rparr>"
proof -
  have r91: "result_of (handle_block ex_ch ex_state 91 ex_chans 0 91) =
     Inr \<lparr>new_state = Some ex_state, events = [ContractSendSecretReveal 100 42]\<rparr>"
    by (simp add: block_defs ex_defs)
  have r90: "result_of (handle_block ex_ch ex_state 90 ex_chans 0 90) =
     Inr \<lparr>new_state = Some ex_state, events = [ContractSendSecretReveal 100 42]\<rparr>"
    by (simp add: block_defs ex_defs)
  have r89: "result_of (handle_block ex_ch ex_state 89 ex_chans 0 89) =
     Inr \<lparr>new_state = Some ex_state, events = []\<rparr>"
    by (simp add: block_defs ex_defs)
  have u91: "first_unsafe_pair ex_ch ex_chans 91 (transfers_pair ex_state) = Some ex_pair"
    by (simp add: first_unsafe_pair_def unsafe_with_known_secret_def block_defs ex_defs)
  have u90: "first_unsafe_pair ex_ch ex_chans 90 (transfers_pair ex_state) = Some ex_pair"
    by (simp add: first_unsafe_pair_def unsafe_with_known_secret_def block_defs ex_defs)
  from result_ofD [OF r89] obtain c p where
    h89: "handle_block ex_ch ex_state 89 ex_chans 0 89 =
      Inr (\<lparr>new_state = Some ex_state, events = []\<rparr>, c, p)"
    by blast
  have u89: "first_unsafe_pair ex_ch ex_chans 89 (transfers_pair ex_state) = None"
    using handle_block_onchain_reveal [OF h89]
    by (simp add: first_unsafe_pair_def unsafe_with_known_secret_def block_defs ex_defs)
  show ?thesis
    using r91 r90 r89 u91 u90 u89 by simp
qed

text \<open>
  C1 as stated fails twice. At block 90 the lock timeout equals the reveal timeout,
  \<open>is_safe_to_wait\<close> is false and the reveal is emitted. At block 106 the pair still
  fails \<open>is_safe_to_wait\<close> with its secret registered, and \<open>handle_block\<close> returns from
  the cleanup of the expired lock without any reveal.
\<close>

theorem handle_block_reveal_counterexample:
  "result_of (handle_block ex_ch ex_state 90 ex_chans 0 90) =
     Inr \<lparr>new_state = Some ex_state, events = [ContractSendSecretReveal 100 42]\<rparr> \<and>
   first_unsafe_pair ex_ch ex_chans 106 (transfers_pair ex_state) = Some ex_pair \<and>
   result_of (handle_block ex_ch ex_state 106 ex_chans 0 106) =
     Inr \<lparr>new_state = None, events = [ChannelEvent 3]\<rparr>"
  by (simp add: first_unsafe_pair_def unsafe_with_known_secret_def block_defs ex_defs)

lemma onchain_loop_total:
  assumes "block_number > 0"
    and "\<forall>pair \<in> set ps. \<exists>c.
           chans (BalanceProof.channel_identifier (balance_proof (payer_transfer pair))) = Some c \<and>
           reveal_timeout c > 0 \<and> expiration (lock (payer_transfer pair)) > reveal_timeout c"
  shows "\<exists>evs. events_for_onchain_secretreveal_loop ch chans ps block_number = Inr evs"
  using assms(2)
proof (induction ps)
  case Nil
  show ?case by simp
next
  case (Cons p ps)
  then obtain c where
    c: "chans (BalanceProof.channel_identifier (balance_proof (payer_transfer p))) = Some c"
    and t: "reveal_timeout c > 0" "expiration (lock (payer_transfer p)) > reveal_timeout c"
    by auto
  from Cons obtain evs where
    ih: "events_for_onchain_secretreveal_loop ch chans ps block_number = Inr evs"
    by auto
  show ?case
    using c t assms(1) ih
    by (simp add: get_payer_channel_def is_safe_to_wait_def Let_def)
qed

lemma sanity_check_iff:
  "sanity_check state = Inr () \<longleftrightarrow>
    ((\<exists>pair \<in> set (transfers_pair state).
        payee_state pair \<in> set STATE_TRANSFER_PAID \<or> payer_state pair \<in> set STATE_TRANSFER_PAID)
      \<longrightarrow> secret state \<noteq> None) \<and>
    (case transfers_pair state of [] \<Rightarrow> True
     | first_pair # _ \<Rightarrow> MediatorTransferState.secrethash state =
                          Lock.secrethash (lock (payer_transfer first_pair))) \<and>
    (\<forall>pair \<in> set (transfers_pair state).
        is_send_transfer_almost_equal (payee_transfer pair) (payer_transfer pair) \<and>
        payer_state pair \<in> set valid_payer_states \<and>
        payee_state pair \<in> set valid_payee_states) \<and>
    (\<forall>(original, refund) \<in> set (zip (butlast (transfers_pair state)) (tl (transfers_pair state))).
        is_send_transfer_almost_equal (payee_transfer original) (payer_transfer refund) \<and>
        payee_address original = payer_address refund \<and>
        expiration (lock (payee_transfer original)) = expiration (lock (payer_transfer refund)))"
  by (auto simp: sanity_check_def Let_def list_ex_iff list_all_iff split: list.splits)

lemma expired_pair_fields [simp]:
  "payer_transfer (expired_pair bn p) = payer_transfer p"
  "payee_transfer (expired_pair bn p) = payee_transfer p"
  "payee_address (expired_pair bn p) = payee_address p"
  "payer_address (expired_pair bn p) = payer_address p"
  by (simp_all add: expired_pair_def payer_address_def)

lemma expired_pair_paid:
  "payee_state (expired_pair bn p) \<in> set STATE_TRANSFER_PAID \<Longrightarrow>
     payee_state p \<in> set STATE_TRANSFER_PAID"
  "payer_state (expired_pair bn p) \<in> set STATE_TRANSFER_PAID \<Longrightarrow>
     payer_state p \<in> set STATE_TRANSFER_PAID"
  by (auto simp: expired_pair_def STATE_TRANSFER_PAID_def split: if_splits)

lemma expired_pair_valid:
  "payer_state p \<in> set valid_payer_states \<Longrightarrow>
     payer_state (expired_pair bn p) \<in> set valid_payer_states"
  "payee_state p \<in> set valid_payee_states \<Longrightarrow>
     payee_state (expired_pair bn p) \<in> set valid_payee_states"
  by (auto simp: expired_pair_def valid_payer_states_def valid_payee_states_def)

lemma zip_butlast_tl_map:
  "zip (butlast (map f ps)) (tl (map f ps)) = map (\<lambda>(a, b). (f a, f b)) (zip (butlast ps) (tl ps))"
  by (simp add: map_butlast [symmetric] map_tl [symmetric] zip_map_map)

lemma sanity_check_expired:
  assumes "sanity_check state = Inr ()"
  shows "sanity_check (state\<lparr>transfers_pair := map (expired_pair bn) (transfers_pair state)\<rparr>) = Inr ()"
proof -
  note s = assms [unfolded sanity_check_iff]
  show ?thesis
    unfolding sanity_check_iff
  proof (intro conjI)
    show "(\<exists>pair\<in>set (transfers_pair (state\<lparr>transfers_pair := map (expired_pair bn) (transfers_pair state)\<rparr>)).
        payee_state pair \<in> set STATE_TRANSFER_PAID \<or> payer_state pair \<in> set STATE_TRANSFER_PAID) \<longrightarrow>
        secret (state\<lparr>transfers_pair := map (expired_pair bn) (transfers_pair state)\<rparr>) \<noteq> None"
      using s by (auto dest: expired_pair_paid)
  next
    show "case transfers_pair (state\<lparr>transfers_pair := map (expired_pair bn) (transfers_pair state)\<rparr>) of
            [] \<Rightarrow> True
          | first_pair # _ \<Rightarrow>
              MediatorTransferState.secrethash (state\<lparr>transfers_pair := map (expired_pair bn) (transfers_pair state)\<rparr>) =
              Lock.secrethash (lock (payer_transfer first_pair))"
      using s by (cases "transfers_pair state") simp_all
  next
    show "\<forall>pair\<in>set (transfers_pair (state\<lparr>transfers_pair := map (expired_pair bn) (transfers_pair state)\<rparr>)).
       is_send_transfer_almost_equal (payee_transfer pair) (payer_transfer pair) \<and>
       payer_state pair \<in> set valid_payer_states \<and> payee_state pair \<in> set valid_payee_states"
      using s expired_pair_valid by auto
  next
    show "\<forall>(original, refund)\<in>set (zip (butlast (transfers_pair (state\<lparr>transfers_pair := map (expired_pair bn) (transfers_pair state)\<rparr>)))
          (tl (transfers_pair (state\<lparr>transfers_pair := map (expired_pair bn) (transfers_pair state)\<rparr>)))).
       is_send_transfer_almost_equal (payee_transfer original) (payer_transfer refund) \<and>
       payee_address original = payer_address refund \<and>
       expiration (lock (payee_transfer original)) = expiration (lock (payer_transfer refund))"
      using s by (auto simp: zip_butlast_tl_map)
  qed
qed

lemma handle_block_total:
  assumes ne: "transfers_pair ms \<noteq> []"
    and present: "\<forall>pair \<in> set (transfers_pair ms).
        BalanceProof.channel_identifier (balance_proof (payer_transfer pair)) \<in> dom chans \<and>
        BalanceProof.channel_identifier (balance_proof (payee_transfer pair)) \<in> dom chans"
    and bn: "block_number > 0"
    and timeouts: "\<forall>pair \<in> set (transfers_pair ms). \<forall>c.
        chans (BalanceProof.channel_identifier (balance_proof (payer_transfer pair))) = Some c \<longrightarrow>
        reveal_timeout c > 0 \<and> expiration (lock (payer_transfer pair)) > reveal_timeout c"
  shows "\<exists>iteration chans' prng'.
           handle_block ch ms n chans prng block_number = Inr (iteration, chans', prng') \<and>
           (new_state iteration = None \<or>
            new_state iteration =
              Some (ms\<lparr>transfers_pair := map (expired_pair block_number) (transfers_pair ms)\<rparr>))"
proof -
  from ne obtain first_pair rest where ps: "transfers_pair ms = first_pair # rest"
    by (cases "transfers_pair ms") auto
  from present ps obtain channel_state where
    cs: "chans (BalanceProof.channel_identifier (balance_proof (payee_transfer first_pair))) =
           Some channel_state"
    by auto
  have "\<forall>pair \<in> set (rev (get_pending_transfer_pairs (transfers_pair ms))). \<exists>c.
           chans (BalanceProof.channel_identifier (balance_proof (payer_transfer pair))) = Some c \<and>
           reveal_timeout c > 0 \<and> expiration (lock (payer_transfer pair)) > reveal_timeout c"
    using present timeouts by (auto simp: get_pending_transfer_pairs_def)
  from onchain_loop_total [OF bn this] obtain revs where
    "events_for_onchain_secretreveal ch chans (transfers_pair ms) block_number = Inr revs"
    by (auto simp: events_for_onchain_secretreveal_def Let_def)
  then show ?thesis
    using ps cs
    by (auto simp: handle_block_def Let_def set_expired_pairs_eq
        split: option.splits prod.splits)
qed

text \<open>
  C10 (amended). A Block state change on a mediator state completes without an exception
  provided \<open>transfers_pair\<close> is not empty, the payer and payee channel identifiers of
  every pair are keys of \<open>channelidentifiers_to_channels\<close>, and moreover the assertions
  of \<open>is_safe_to_wait\<close> hold (the block number is positive, the reveal timeout of every
  pair's payer channel is positive and below the payer lock expiration) and the state
  passes \<open>sanity_check\<close>. With an empty \<open>transfers_pair\<close> the transition raises
  \<open>IndexError\<close>; when the payee channel of the first pair is missing it raises
  \<open>AttributeError\<close>.
\<close>

theorem state_transition_block_total:
  "(transfers_pair ms \<noteq> [] \<and>
    (\<forall>pair \<in> set (transfers_pair ms).
        BalanceProof.channel_identifier (balance_proof (payer_transfer pair)) \<in> dom chans \<and>
        BalanceProof.channel_identifier (balance_proof (payee_transfer pair)) \<in> dom chans) \<and>
    block_number > 0 \<and>
    (\<forall>pair \<in> set (transfers_pair ms). \<forall>c.
        chans (BalanceProof.channel_identifier (balance_proof (payer_transfer pair))) = Some c \<longrightarrow>
        reveal_timeout c > 0 \<and> expiration (lock (payer_transfer pair)) > reveal_timeout c) \<and>
    sanity_check ms = Inr ()
    \<longrightarrow> (\<exists>iteration chans' prng'.
           state_transition ch (Some ms) (Block n) chans prng block_number =
             Inr (iteration, chans', prng'))) \<and>
   (transfers_pair ms = [] \<longrightarrow>
      state_transition ch (Some ms) (Block n) chans prng block_number = Inl IndexError) \<and>
   (\<forall>first_pair rest.
      transfers_pair ms = first_pair # rest \<and>
      chans (BalanceProof.channel_identifier (balance_proof (payee_transfer first_pair))) = None
      \<longrightarrow> state_transition ch (Some ms) (Block n) chans prng block_number = Inl AttributeError)"
proof (intro conjI impI allI)
  assume a: "transfers_pair ms \<noteq> [] \<and>
    (\<forall>pair \<in> set (transfers_pair ms).
        BalanceProof.channel_identifier (balance_proof (payer_transfer pair)) \<in> dom chans \<and>
        BalanceProof.channel_identifier (balance_proof (payee_transfer pair)) \<in> dom chans) \<and>
    block_number > 0 \<and>
    (\<forall>pair \<in> set (transfers_pair ms). \<forall>c.
        chans (BalanceProof.channel_identifier (balance_proof (payer_transfer pair))) = Some c \<longrightarrow>
        reveal_timeout c > 0 \<and> expiration (lock (payer_transfer pair)) > reveal_timeout c) \<and>
    sanity_check ms = Inr ()"
  then have sane: "sanity_check ms = Inr ()" by simp
  from a handle_block_total [of ms chans block_number ch n prng]
  obtain iteration chans' prng' where
    hb: "handle_block ch ms n chans prng block_number = Inr (iteration, chans', prng')"
    and ns: "new_state iteration = None \<or>
            new_state iteration =
              Some (ms\<lparr>transfers_pair := map (expired_pair block_number) (transfers_pair ms)\<rparr>)"
    by blast
  from ns show "\<exists>iteration chans' prng'.
           state_transition ch (Some ms) (Block n) chans prng block_number =
             Inr (iteration, chans', prng')"
  proof
    assume "new_state iteration = None"
    then show ?thesis
      by (simp add: state_transition_def state_transition_dispatch_def hb)
  next
    assume "new_state iteration =
              Some (ms\<lparr>transfers_pair := map (expired_pair block_number) (transfers_pair ms)\<rparr>)"
    then show ?thesis
      by (simp add: state_transition_def state_transition_dispatch_def hb
            sanity_check_expired [OF sane])
  qed
next
  assume "transfers_pair ms = []"
  then show "state_transition ch (Some ms) (Block n) chans prng block_number = Inl IndexError"
    by (simp add: state_transition_def state_transition_dispatch_def handle_block_def)
next
  fix first_pair rest
  assume "transfers_pair ms = first_pair # rest \<and>
      chans (BalanceProof.channel_identifier (balance_proof (payee_transfer first_pair))) = None"
  then show "state_transition ch (Some ms) (Block n) chans prng block_number = Inl AttributeError"
    by (simp add: state_transition_def state_transition_dispatch_def handle_block_def)
qed

lemmas sanity_defs = sanity_check_def is_send_transfer_almost_equal_def payer_address_def
  valid_payer_states_def valid_payee_states_def STATE_TRANSFER_PAID_def clear_if_finalized_def

theorem state_transition_block_total_witness:
  "result_of (state_transition ex_ch (Some ex_state) (Block 50) ex_chans 0 50) =
     Inr \<lparr>new_state = Some ex_state, events = []\<rparr> \<and>
   (\<exists>iteration chans' prng'.
      state_transition ex_ch (Some ex_state) (Block 50) ex_chans 0 50 =
        Inr (iteration, chans', prng'))"
proof -
  have pre: "transfers_pair ex_state \<noteq> [] \<and>
    (\<forall>pair \<in> set (transfers_pair ex_state).
        BalanceProof.channel_identifier (balance_proof (payer_transfer pair)) \<in> dom ex_chans \<and>
        BalanceProof.channel_identifier (balance_proof (payee_transfer pair)) \<in> dom ex_chans) \<and>
    (50::int) > 0 \<and>
    (\<forall>pair \<in> set (transfers_pair ex_state). \<forall>c.
        ex_chans (BalanceProof.channel_identifier (balance_proof (payer_transfer pair))) = Some c \<longrightarrow>
        reveal_timeout c > 0 \<and> expiration (lock (payer_transfer pair)) > reveal_timeout c) \<and>
    sanity_check ex_state = Inr ()"
    by (simp add: ex_defs sanity_defs)
  have r: "result_of (state_transition ex_ch (Some ex_state) (Block 50) ex_chans 0 50) =
     Inr \<lparr>new_state = Some ex_state, events = []\<rparr>"
    by (simp add: state_transition_def state_transition_dispatch_def block_defs ex_defs
          sanity_defs)
  show ?thesis
    using state_transition_block_total [of ex_state ex_chans 50 ex_ch 50 0] pre r
    by blast
qed

text \<open>
  C10 as stated fails: with the payer channel's reveal timeout at 100, not below the
  payer lock expiration, the pairs and their channels are all there and the transition
  raises the assertion of \<open>is_safe_to_wait\<close>.
\<close>

theorem state_transition_block_assertion:
  "transfers_pair ex_state = [ex_pair] \<and>
   BalanceProof.channel_identifier (balance_proof (payer_transfer ex_pair)) \<in> dom ex_chans_wide \<and>
   BalanceProof.channel_identifier (balance_proof (payee_transfer ex_pair)) \<in> dom ex_chans_wide \<and>
   state_transition ex_ch (Some ex_state) (Block 50) ex_chans_wide 0 50 = Inl AssertionError"
  by (simp add: state_transition_def state_transition_dispatch_def block_defs ex_defs
        ex_chans_wide_def)

subsection \<open>The invariant that sanity\_check enforces\<close>

lemma state_transition_sane:
  assumes "state_transition ch mediator_state sc chans prng bn = Inr (iteration, chans', prng')"
    and "new_state iteration = Some state'"
  shows "sanity_check state' = Inr ()"
proof -
  from assms(1) obtain it0 where
    it: "iteration = clear_if_finalized it0"
    and sane: "\<forall>s. new_state it0 = Some s \<longrightarrow> sanity_check s = Inr ()"
    by (auto simp: state_transition_def split: sum.splits option.splits prod.splits)
  from it assms(2) have "new_state it0 = Some state'"
    by (auto simp: clear_if_finalized_def Let_def split: option.splits if_splits)
  with sane show ?thesis by simp
qed

text \<open>
  C2. Every transition of \<open>state_transition\<close> that yields a new state other than \<open>None\<close>
  yields a state in which the secret is set as soon as the payer or the payee state of
  any pair is in \<open>STATE_TRANSFER_PAID\<close>: \<open>state_transition\<close> returns such a state only
  after \<open>sanity_check\<close> has passed on it, whatever the state change and the handler.
\<close>

theorem state_transition_paid_secret:
  assumes "state_transition ch mediator_state state_change' chans prng block_number =
             Inr (iteration, chans', prng')"
    and "new_state iteration = Some state'"
    and "pair \<in> set (transfers_pair state')"
    and "payer_state pair \<in> set STATE_TRANSFER_PAID \<or>
         payee_state pair \<in> set STATE_TRANSFER_PAID"
  shows "secret state' \<noteq> None"
  using state_transition_sane [OF assms(1,2)] assms(3,4)
  unfolding sanity_check_iff by blast

lemmas reveal_defs = state_transition_def state_transition_dispatch_def handle_secretreveal_def
  secret_learned_def set_secret_def events_for_unlock_if_closed_def
  set_payee_state_and_check_reveal_order_def events_for_revealsecret_def
  events_for_balanceproof_def get_payee_channel_def STATE_SECRET_KNOWN_def

theorem state_transition_paid_secret_witness:
  "result_of (state_transition ex_ch (Some ex_state) (ReceiveSecretReveal 42 7 12) ex_chans 0 50) =
     Inr \<lparr>new_state = Some ex_state_paid,
          events = [SendRevealSecret 11 0 0 42, ChannelEvent 2, EventUnlockSuccess 1 7]\<rparr> \<and>
   payee_state (hd (transfers_pair ex_state_paid)) \<in> set STATE_TRANSFER_PAID \<and>
   secret ex_state_paid \<noteq> None"
proof -
  have r: "result_of (state_transition ex_ch (Some ex_state) (ReceiveSecretReveal 42 7 12)
             ex_chans 0 50) =
     Inr \<lparr>new_state = Some ex_state_paid,
          events = [SendRevealSecret 11 0 0 42, ChannelEvent 2, EventUnlockSuccess 1 7]\<rparr>"
    by (simp add: reveal_defs block_defs ex_defs sanity_defs ex_state_paid_def)
  from result_ofD [OF r] obtain c p where
    h: "state_transition ex_ch (Some ex_state) (ReceiveSecretReveal 42 7 12) ex_chans 0 50 =
      Inr (\<lparr>new_state = Some ex_state_paid,
          events = [SendRevealSecret 11 0 0 42, ChannelEvent 2, EventUnlockSuccess 1 7]\<rparr>, c, p)"
    by blast
  have m: "hd (transfers_pair ex_state_paid) \<in> set (transfers_pair ex_state_paid)"
    by (simp add: ex_state_paid_def)
  have pd: "payee_state (hd (transfers_pair ex_state_paid)) \<in> set STATE_TRANSFER_PAID"
    by (simp add: ex_state_paid_def STATE_TRANSFER_PAID_def)
  have "secret ex_state_paid \<noteq> None"
    using state_transition_paid_secret [OF h _ m] pd by simp
  with r pd show ?thesis by simp
qed

subsection \<open>Refunds and the lifecycle of a state\<close>

text \<open>
  C7. A \<open>ReceiveTransferRefund\<close> on a mediator state whose secret is set is a no-op:
  \<open>handle_refundtransfer\<close> returns the same state, no events, and leaves the channel map
  and the generator as they are; so does \<open>state_transition\<close> whenever it returns a
  state.
\<close>

theorem handle_refundtransfer_secret_known:
  assumes "secret mediator_state \<noteq> None"
  shows "handle_refundtransfer ch mediator_state refund_transfer refund_routes chans prng
           block_number =
           Inr (\<lparr>new_state = Some mediator_state, events = []\<rparr>, chans, prng) \<and>
         (\<forall>iteration chans' prng'.
            state_transition ch (Some mediator_state)
              (ReceiveTransferRefund refund_transfer refund_routes) chans prng block_number =
              Inr (iteration, chans', prng') \<longrightarrow>
            events iteration = [] \<and> chans' = chans \<and> prng' = prng \<and>
            (new_state iteration \<noteq> None \<longrightarrow> new_state iteration = Some mediator_state))"
proof -
  have h: "handle_refundtransfer ch mediator_state refund_transfer refund_routes chans prng
           block_number =
           Inr (\<lparr>new_state = Some mediator_state, events = []\<rparr>, chans, prng)"
    using assms by (cases "secret mediator_state") (simp_all add: handle_refundtransfer_def)
  show ?thesis
    using h
    by (auto simp: state_transition_def state_transition_dispatch_def clear_if_finalized_def
          Let_def split: sum.splits if_splits)
qed

theorem handle_refundtransfer_secret_known_witness:
  "handle_refundtransfer ex_ch ex_state_paid ex_refund_transfer [ex_route] ex_chans 0 50 =
     Inr (\<lparr>new_state = Some ex_state_paid, events = []\<rparr>, ex_chans, 0) \<and>
   result_of (state_transition ex_ch (Some ex_state_paid)
     (ReceiveTransferRefund ex_refund_transfer [ex_route]) ex_chans 0 50) =
     Inr \<lparr>new_state = Some ex_state_paid, events = []\<rparr>"
proof -
  have s: "secret ex_state_paid \<noteq> None"
    by (simp add: ex_state_paid_def)
  have r: "result_of (state_transition ex_ch (Some ex_state_paid)
     (ReceiveTransferRefund ex_refund_transfer [ex_route]) ex_chans 0 50) =
     Inr \<lparr>new_state = Some ex_state_paid, events = []\<rparr>"
    by (simp add: state_transition_def state_transition_dispatch_def handle_refundtransfer_def
          result_of_def ex_state_paid_def ex_defs sanity_defs)
  show ?thesis
    using handle_refundtransfer_secret_known [OF s, of ex_ch ex_refund_transfer "[ex_route]"
        ex_chans 0 50] r
    by simp
qed

lemma mediate_transfer_no_route_no_refund:
  assumes a: "address (partner_state (snd payer_channel)) = sender (balance_proof payer_transfer')"
    and n: "next_channel_from_routes ch
              (filter_used_routes (transfers_pair state) possible_routes) chans
              (amount (lock payer_transfer')) (expiration (lock payer_transfer') - bn) = None"
    and t: "refund_target state (snd payer_channel) payer_transfer' chans =
              Some (refund_channel, refund_transfer)"
    and u: "\<not> is_channel_usable ch refund_channel (amount (lock refund_transfer))
                (expiration (lock refund_transfer) - bn)"
  shows "result_of (mediate_transfer ch state possible_routes payer_channel chans prng
           payer_transfer' bn) = Inr \<lparr>new_state = Some state, events = []\<rparr>"
proof -
  have ntp: "next_transfer_pair ch payer_transfer'
      (filter_used_routes (transfers_pair state) possible_routes) chans prng bn =
      Inr ((None, []), chans, prng)"
    using n by (simp add: next_transfer_pair_def Let_def)
  have ref: "events_for_refund_transfer ch refund_channel refund_transfer prng bn =
      ([], refund_channel, prng)"
    using u by (simp add: events_for_refund_transfer_def Let_def)
  show ?thesis
  proof (cases "transfers_pair state")
    case Nil
    with t have "refund_channel = snd payer_channel" "refund_transfer = payer_transfer'"
      by (simp_all add: refund_target_def)
    with Nil a ntp ref show ?thesis
      by (cases payer_channel) (simp add: mediate_transfer_def Let_def result_of_def)
  next
    case (Cons original_pair rest)
    with t have
      c: "chans (BalanceProof.channel_identifier (balance_proof (payer_transfer original_pair))) =
            Some refund_channel"
      and tr: "refund_transfer = payer_transfer original_pair"
      by (auto simp: refund_target_def split: option.splits)
    with Cons a ntp ref show ?thesis
      by (simp add: mediate_transfer_def Let_def result_of_def get_payer_channel_def)
  qed
qed

lemma mediate_transfer_Some:
  "mediate_transfer ch state routes pc chans prng pt bn = Inr (it, c, p) \<Longrightarrow>
     new_state it \<noteq> None"
  by (auto simp: mediate_transfer_def Let_def
      split: sum.splits option.splits prod.splits list.splits if_splits)

lemma secret_learned_Some:
  "secret_learned ch state chans prng bn s h a n f = Inr (it, c, p) \<Longrightarrow> new_state it \<noteq> None"
  by (auto simp: secret_learned_def Let_def
      split: sum.splits option.splits prod.splits if_splits)

lemma handle_block_None:
  "handle_block ch ms n chans prng bn = Inr (it, c, p) \<Longrightarrow> new_state it = None \<Longrightarrow>
     cleanup_threshold_crossed ch ms n chans"
  by (auto simp: handle_block_def cleanup_threshold_crossed_def Let_def
      split: list.splits sum.splits option.splits prod.splits if_splits)

lemma handle_refundtransfer_None:
  "handle_refundtransfer ch ms t r chans prng bn = Inr (it, c, p) \<Longrightarrow> new_state it = None \<Longrightarrow>
     secret ms = None \<and>
     (\<exists>payer_channel.
        chans (BalanceProof.channel_identifier (balance_proof t)) = Some payer_channel \<and>
        \<not> fst (fst (channel_handle_refundtransfer ch
                      (payee_transfer (last (transfers_pair ms))) payer_channel
                      (ReceiveTransferRefund t r))))"
  by (auto simp: handle_refundtransfer_def Let_def
      split: if_splits list.splits option.splits prod.splits sum.splits
      dest: mediate_transfer_Some)

lemma dispatch_None:
  assumes "state_transition_dispatch ch (Some ms) sc chans prng bn = Inr (it, c, p)"
    and "new_state it = None"
  shows "(\<exists>n. sc = Block n \<and> cleanup_threshold_crossed ch ms n chans) \<or>
         (\<exists>r. sc = ReceiveLockExpired r) \<or>
         (\<exists>t r payer_channel.
            sc = ReceiveTransferRefund t r \<and> secret ms = None \<and>
            chans (BalanceProof.channel_identifier (balance_proof t)) = Some payer_channel \<and>
            \<not> fst (fst (channel_handle_refundtransfer ch
                          (payee_transfer (last (transfers_pair ms))) payer_channel
                          (ReceiveTransferRefund t r))))"
proof (cases sc)
  case (ActionInitMediator x11 x12 x13)
  with assms show ?thesis by (auto simp: state_transition_dispatch_def)
next
  case (Block n)
  with assms show ?thesis
    by (auto simp: state_transition_dispatch_def dest: handle_block_None)
next
  case (ReceiveTransferRefund t r)
  with assms show ?thesis
    by (auto simp: state_transition_dispatch_def dest: handle_refundtransfer_None)
next
  case (ReceiveSecretReveal s h a)
  with assms show ?thesis
    by (auto simp: state_transition_dispatch_def handle_secretreveal_def Let_def
        split: if_splits dest: secret_learned_Some)
next
  case (ContractReceiveSecretReveal s h a)
  with assms show ?thesis
    by (auto simp: state_transition_dispatch_def handle_secretreveal_def Let_def
        split: if_splits dest: secret_learned_Some)
next
  case (ReceiveUnlock m b)
  with assms show ?thesis
    by (auto simp: state_transition_dispatch_def handle_unlock_def Let_def split: prod.splits)
next
  case (ReceiveLockExpired r)
  then show ?thesis by simp
next
  case OtherStateChange
  with assms show ?thesis by (auto simp: state_transition_dispatch_def)
qed

lemma unlock_if_closed_loop_length:
  "events_for_unlock_if_closed_loop ch chans ps s h ev = Inr (ps', ev') \<Longrightarrow>
     length ps' = length ps"
proof (induction ps arbitrary: ev ps' ev')
  case Nil
  then show ?case by simp
next
  case (Cons p ps)
  from Cons.prems show ?case
    by (auto simp: Let_def split: if_splits sum.splits prod.splits dest: Cons.IH)
qed

lemma set_payee_state_loop_length:
  "set_payee_state_loop ps a n w = (ps', w') \<Longrightarrow> length ps' = length ps"
proof (induction ps arbitrary: w ps' w')
  case Nil
  then show ?case by simp
next
  case (Cons p ps)
  from Cons.prems show ?case
    by (auto simp: Let_def split: if_splits prod.splits dest: Cons.IH)
qed

lemma revealsecret_loop_length:
  "events_for_revealsecret_loop ch ps s g ev = (ps', ev', g') \<Longrightarrow> length ps' = length ps"
proof (induction ps arbitrary: g ev ps' ev' g')
  case Nil
  then show ?case by simp
next
  case (Cons p ps)
  from Cons.prems show ?case
    by (auto simp: Let_def split: if_splits prod.splits dest: Cons.IH)
qed

lemma balanceproof_loop_length:
  "events_for_balanceproof_loop ch chans ps g bn s h ev = Inr (ps', ev', chans', g') \<Longrightarrow>
     length ps' = length ps"
proof (induction ps arbitrary: chans g ev ps' ev' chans' g')
  case Nil
  then show ?case by simp
next
  case (Cons p ps)
  from Cons.prems show ?case
    by (auto simp: Let_def split: if_splits sum.splits prod.splits dest: Cons.IH)
qed

lemma handle_unlock_loop_length:
  "handle_unlock_loop ch ps m b chans ev = (ps', ev', chans') \<Longrightarrow> length ps' = length ps"
proof (induction ps arbitrary: chans ev ps' ev' chans')
  case Nil
  then show ?case by simp
next
  case (Cons p ps)
  from Cons.prems show ?case
    by (auto split: prod.splits dest: Cons.IH)
qed

lemma secret_learned_length:
  assumes "secret_learned ch state chans g bn s h a n f = Inr (it, c, p)"
  shows "\<exists>state'. new_state it = Some state' \<and>
           length (transfers_pair state') = length (transfers_pair state)"
  using assms
  by (auto simp: secret_learned_def set_secret_def set_onchain_secret_def
        events_for_unlock_if_closed_def set_payee_state_and_check_reveal_order_def
        events_for_revealsecret_def events_for_balanceproof_def Let_def
      split: if_splits sum.splits prod.splits
      dest!: unlock_if_closed_loop_length set_payee_state_loop_length
        revealsecret_loop_length balanceproof_loop_length)

lemma mediate_transfer_length:
  assumes "mediate_transfer ch state routes pc chans g pt bn = Inr (it, c, p)"
  shows "\<exists>state'. new_state it = Some state' \<and>
           length (transfers_pair state') \<ge> length (transfers_pair state)"
  using assms
  by (auto simp: mediate_transfer_def Let_def
      split: sum.splits option.splits prod.splits list.splits if_splits)

lemma dispatch_pairs_kept:
  assumes "state_transition_dispatch ch (Some ms) sc chans g bn = Inr (it, c, p)"
    and "new_state it = Some state'"
    and "transfers_pair ms \<noteq> []"
  shows "transfers_pair state' \<noteq> []"
proof (cases sc)
  case (ActionInitMediator x11 x12 x13)
  with assms show ?thesis by (auto simp: state_transition_dispatch_def)
next
  case (Block n)
  with assms have hb: "handle_block ch ms n chans g bn = Inr (it, c, p)"
    by (simp add: state_transition_dispatch_def)
  from handle_block_cases [OF hb] assms(2,3) show ?thesis by auto
next
  case (ReceiveTransferRefund t r)
  with assms show ?thesis
    by (auto simp: state_transition_dispatch_def handle_refundtransfer_def Let_def
        split: if_splits list.splits option.splits prod.splits sum.splits
        dest!: mediate_transfer_length)
next
  case (ReceiveSecretReveal s h a)
  with assms show ?thesis
    by (auto simp: state_transition_dispatch_def handle_secretreveal_def Let_def
        split: if_splits dest!: secret_learned_length)
next
  case (ContractReceiveSecretReveal s h a)
  with assms show ?thesis
    by (auto simp: state_transition_dispatch_def handle_secretreveal_def Let_def
        split: if_splits dest!: secret_learned_length)
next
  case (ReceiveUnlock m b)
  with assms show ?thesis
    by (auto simp: state_transition_dispatch_def handle_unlock_def Let_def
        split: prod.splits dest!: handle_unlock_loop_length)
next
  case (ReceiveLockExpired r)
  with assms show ?thesis
    by (auto simp: state_transition_dispatch_def handle_lock_expired_def Let_def
        split: prod.splits)
next
  case OtherStateChange
  with assms show ?thesis by (auto simp: state_transition_dispatch_def)
qed

lemma refund_transition_retained:
  assumes s: "secret mediator_state = None"
    and ne: "transfers_pair mediator_state \<noteq> []"
    and c: "chans (BalanceProof.channel_identifier (balance_proof received_refund)) =
              Some refunding_channel"
    and v: "channel_handle_refundtransfer ch
              (payee_transfer (last (transfers_pair mediator_state))) refunding_channel
              (ReceiveTransferRefund received_refund refund_routes) =
              ((True, channel_events), refunding_channel')"
    and a: "address (partner_state refunding_channel') = sender (balance_proof received_refund)"
    and n: "next_channel_from_routes ch
              (filter_used_routes (transfers_pair mediator_state) refund_routes)
              (chans(BalanceProof.channel_identifier (balance_proof received_refund) \<mapsto>
                 refunding_channel'))
              (amount (lock received_refund))
              (expiration (lock received_refund) - block_number) = None"
    and t: "refund_target mediator_state refunding_channel' received_refund
              (chans(BalanceProof.channel_identifier (balance_proof received_refund) \<mapsto>
                 refunding_channel')) = Some (first_channel, first_transfer)"
    and u: "\<not> is_channel_usable ch first_channel (amount (lock first_transfer))
                (expiration (lock first_transfer) - block_number)"
    and sane: "sanity_check mediator_state = Inr ()"
  shows "result_of (state_transition ch (Some mediator_state)
           (ReceiveTransferRefund received_refund refund_routes) chans prng block_number) =
         Inr \<lparr>new_state = Some mediator_state, events = channel_events\<rparr>"
proof -
  let ?cid = "BalanceProof.channel_identifier (balance_proof received_refund)"
  have "result_of (mediate_transfer ch mediator_state refund_routes (?cid, refunding_channel')
          (chans(?cid \<mapsto> refunding_channel')) prng received_refund block_number) =
        Inr \<lparr>new_state = Some mediator_state, events = []\<rparr>"
    by (rule mediate_transfer_no_route_no_refund
          [where refund_channel = first_channel and refund_transfer = first_transfer])
       (simp_all add: a n t u)
  from result_ofD [OF this] obtain c2 p2 where
    m: "mediate_transfer ch mediator_state refund_routes (?cid, refunding_channel')
          (chans(?cid \<mapsto> refunding_channel')) prng received_refund block_number =
        Inr (\<lparr>new_state = Some mediator_state, events = []\<rparr>, c2, p2)"
    by blast
  from ne obtain p0 rest where ps: "transfers_pair mediator_state = p0 # rest"
    by (cases "transfers_pair mediator_state") auto
  have h: "handle_refundtransfer ch mediator_state received_refund refund_routes chans prng
             block_number =
           Inr (\<lparr>new_state = Some mediator_state, events = channel_events\<rparr>, c2, p2)"
    using s c v m ps by (simp add: handle_refundtransfer_def Let_def)
  have unpaid: "\<not> list_all (\<lambda>pair. payee_state pair \<in> set STATE_TRANSFER_PAID \<and>
                               payer_state pair \<in> set STATE_TRANSFER_PAID)
                  (transfers_pair mediator_state)"
    using sane s ps unfolding sanity_check_iff by auto
  show ?thesis
    using h sane unpaid
    by (simp add: state_transition_def state_transition_dispatch_def clear_if_finalized_def
          result_of_def Let_def)
qed

lemma state_destroyed_cases:
  assumes ne: "transfers_pair mediator_state \<noteq> []"
    and st: "state_transition ch (Some mediator_state) state_change' chans prng block_number =
               Inr (iteration, chans', prng')"
    and none: "new_state iteration = None"
  shows "(\<exists>state' events' chans1 prng1.
           state_transition_dispatch ch (Some mediator_state) state_change' chans prng
             block_number = Inr (\<lparr>new_state = Some state', events = events'\<rparr>, chans1, prng1) \<and>
           transfers_pair state' \<noteq> [] \<and> fully_paid state') \<or>
        (\<exists>n. state_change' = Block n \<and> cleanup_threshold_crossed ch mediator_state n chans) \<or>
        (\<exists>from_route. state_change' = ReceiveLockExpired from_route) \<or>
        (\<exists>refund_transfer' refund_routes' payer_channel'.
           state_change' = ReceiveTransferRefund refund_transfer' refund_routes' \<and>
           secret mediator_state = None \<and>
           chans (BalanceProof.channel_identifier (balance_proof refund_transfer')) =
             Some payer_channel' \<and>
           \<not> fst (fst (channel_handle_refundtransfer ch
                         (payee_transfer (last (transfers_pair mediator_state))) payer_channel'
                         (ReceiveTransferRefund refund_transfer' refund_routes'))))"
proof -
  from st obtain it0 c p where
    d: "state_transition_dispatch ch (Some mediator_state) state_change' chans prng
          block_number = Inr (it0, c, p)"
    and it: "iteration = clear_if_finalized it0"
    by (auto simp: state_transition_def split: sum.splits option.splits prod.splits)
  show ?thesis
  proof (cases "new_state it0")
    case None
    from dispatch_None [OF d None] show ?thesis by blast
  next
    case (Some s0)
    with it none have fp: "fully_paid s0"
      by (auto simp: clear_if_finalized_def fully_paid_def Let_def split: if_splits)
    have kept: "transfers_pair s0 \<noteq> []"
      using dispatch_pairs_kept [OF d Some ne] .
    have "it0 = \<lparr>new_state = Some s0, events = events it0\<rparr>"
      using Some by (cases it0) simp
    with d fp kept show ?thesis by metis
  qed
qed

lemma init_transition_dropped:
  assumes c: "chans (RouteState.channel_identifier from_route) = Some arriving_channel"
    and v: "channel_handle_receive_lockedtransfer ch arriving_channel from_transfer =
              ((True, init_events), arriving_channel')"
    and a: "address (partner_state arriving_channel') = sender (balance_proof from_transfer)"
    and n: "next_channel_from_routes ch (filter_used_routes [] init_routes)
              (chans(RouteState.channel_identifier from_route \<mapsto> arriving_channel'))
              (amount (lock from_transfer))
              (expiration (lock from_transfer) - block_number) = None"
    and u: "\<not> is_channel_usable ch arriving_channel' (amount (lock from_transfer))
                (expiration (lock from_transfer) - block_number)"
  shows "result_of (state_transition ch None
           (ActionInitMediator init_routes from_route from_transfer) chans prng block_number) =
         Inr \<lparr>new_state = None, events = init_events\<rparr>"
proof -
  let ?cid = "RouteState.channel_identifier from_route"
  let ?s = "\<lparr>MediatorTransferState.secrethash = Lock.secrethash (lock from_transfer),
             secret = None, transfers_pair = []\<rparr>"
  have "result_of (mediate_transfer ch ?s init_routes (?cid, arriving_channel')
          (chans(?cid \<mapsto> arriving_channel')) prng from_transfer block_number) =
        Inr \<lparr>new_state = Some ?s, events = []\<rparr>"
    by (rule mediate_transfer_no_route_no_refund
          [where refund_channel = arriving_channel' and refund_transfer = from_transfer])
       (simp_all add: a n u refund_target_def)
  from result_ofD [OF this] obtain c2 p2 where
    m: "mediate_transfer ch ?s init_routes (?cid, arriving_channel')
          (chans(?cid \<mapsto> arriving_channel')) prng from_transfer block_number =
        Inr (\<lparr>new_state = Some ?s, events = []\<rparr>, c2, p2)"
    by blast
  have h: "handle_init ch init_routes from_route from_transfer chans prng block_number =
           Inr (\<lparr>new_state = Some ?s, events = init_events\<rparr>, c2, p2)"
    using c v m by (simp add: handle_init_def Let_def)
  have sane: "sanity_check ?s = Inr ()"
    by (simp add: sanity_check_def)
  show ?thesis
    using h sane
    by (simp add: state_transition_def state_transition_dispatch_def clear_if_finalized_def
          result_of_def Let_def)
qed

text \<open>
  C6 (amended). When \<open>mediate_transfer\<close> finds no usable route among the filtered routes
  and the refund channel (the payer channel of the first pair if there is one, else the
  payer channel of the call) is not usable for amount and lock timeout of the transfer
  to refund, \<open>mediate_transfer\<close> emits no events and returns the mediator state as it is.
  When this happens in the transition of a \<open>ReceiveTransferRefund\<close> that the channel
  accepts, on a state with at least one pair, an unknown secret and a passed
  \<open>sanity_check\<close>, \<open>state_transition\<close> returns that same state with the events of the
  channel alone: the transfer is retained. When it happens in the transition of an
  \<open>ActionInitMediator\<close> that the channel accepts, the state has no pair yet,
  \<open>clear_if_finalized\<close> counts it as finalized and \<open>state_transition\<close> returns no state,
  with the events of the channel alone: the transfer is not retained. A state with at
  least one pair is destroyed by \<open>state_transition\<close> only when the state that the handler
  returns has at least one pair and all of its pairs paid on both sides, when a Block
  crosses the expiration cleanup threshold, on \<open>ReceiveLockExpired\<close>, or on a
  \<open>ReceiveTransferRefund\<close> that the channel rejects while the secret is unknown.
\<close>

theorem no_route_no_refund_and_lifecycle:
  "(address (partner_state (snd payer_channel)) = sender (balance_proof payer_transfer') \<and>
    next_channel_from_routes ch
      (filter_used_routes (transfers_pair state) possible_routes) chans
      (amount (lock payer_transfer')) (expiration (lock payer_transfer') - block_number) = None \<and>
    refund_target state (snd payer_channel) payer_transfer' chans =
      Some (refund_channel, refund_transfer) \<and>
    \<not> is_channel_usable ch refund_channel (amount (lock refund_transfer))
        (expiration (lock refund_transfer) - block_number)
    \<longrightarrow> result_of (mediate_transfer ch state possible_routes payer_channel chans prng
           payer_transfer' block_number) = Inr \<lparr>new_state = Some state, events = []\<rparr>) \<and>
   (secret mediator_state = None \<and>
    transfers_pair mediator_state \<noteq> [] \<and>
    sanity_check mediator_state = Inr () \<and>
    chans (BalanceProof.channel_identifier (balance_proof received_refund)) =
      Some refunding_channel \<and>
    channel_handle_refundtransfer ch
      (payee_transfer (last (transfers_pair mediator_state))) refunding_channel
      (ReceiveTransferRefund received_refund refund_routes) =
      ((True, channel_events), refunding_channel') \<and>
    address (partner_state refunding_channel') = sender (balance_proof received_refund) \<and>
    next_channel_from_routes ch
      (filter_used_routes (transfers_pair mediator_state) refund_routes)
      (chans(BalanceProof.channel_identifier (balance_proof received_refund) \<mapsto>
         refunding_channel'))
      (amount (lock received_refund))
      (expiration (lock received_refund) - block_number) = None \<and>
    refund_target mediator_state refunding_channel' received_refund
      (chans(BalanceProof.channel_identifier (balance_proof received_refund) \<mapsto>
         refunding_channel')) = Some (first_channel, first_transfer) \<and>
    \<not> is_channel_usable ch first_channel (amount (lock first_transfer))
        (expiration (lock first_transfer) - block_number)
    \<longrightarrow> result_of (state_transition ch (Some mediator_state)
           (ReceiveTransferRefund received_refund refund_routes) chans prng block_number) =
         Inr \<lparr>new_state = Some mediator_state, events = channel_events\<rparr>) \<and>
   (chans (RouteState.channel_identifier from_route) = Some arriving_channel \<and>
    channel_handle_receive_lockedtransfer ch arriving_channel from_transfer =
      ((True, init_events), arriving_channel') \<and>
    address (partner_state arriving_channel') = sender (balance_proof from_transfer) \<and>
    next_channel_from_routes ch (filter_used_routes [] init_routes)
      (chans(RouteState.channel_identifier from_route \<mapsto> arriving_channel'))
      (amount (lock from_transfer)) (expiration (lock from_transfer) - block_number) = None \<and>
    \<not> is_channel_usable ch arriving_channel' (amount (lock from_transfer))
        (expiration (lock from_transfer) - block_number)
    \<longrightarrow> result_of (state_transition ch None
           (ActionInitMediator init_routes from_route from_transfer) chans prng block_number) =
         Inr \<lparr>new_state = None, events = init_events\<rparr>) \<and>
   (transfers_pair mediator_state \<noteq> [] \<and>
    state_transition ch (Some mediator_state) state_change' chans prng block_number =
      Inr (iteration, chans', prng') \<and>
    new_state iteration = None
    \<longrightarrow> (\<exists>state' events' chans1 prng1.
           state_transition_dispatch ch (Some mediator_state) state_change' chans prng
             block_number = Inr (\<lparr>new_state = Some state', events = events'\<rparr>, chans1, prng1) \<and>
           transfers_pair state' \<noteq> [] \<and> fully_paid state') \<or>
        (\<exists>n. state_change' = Block n \<and> cleanup_threshold_crossed ch mediator_state n chans) \<or>
        (\<exists>from_route'. state_change' = ReceiveLockExpired from_route') \<or>
        (\<exists>refund_transfer' refund_routes' payer_channel'.
           state_change' = ReceiveTransferRefund refund_transfer' refund_routes' \<and>
           secret mediator_state = None \<and>
           chans (BalanceProof.channel_identifier (balance_proof refund_transfer')) =
             Some payer_channel' \<and>
           \<not> fst (fst (channel_handle_refundtransfer ch
                         (payee_transfer (last (transfers_pair mediator_state))) payer_channel'
                         (ReceiveTransferRefund refund_transfer' refund_routes')))))"
proof (intro conjI impI)
  assume "address (partner_state (snd payer_channel)) = sender (balance_proof payer_transfer') \<and>
    next_channel_from_routes ch
      (filter_used_routes (transfers_pair state) possible_routes) chans
      (amount (lock payer_transfer')) (expiration (lock payer_transfer') - block_number) = None \<and>
    refund_target state (snd payer_channel) payer_transfer' chans =
      Some (refund_channel, refund_transfer) \<and>
    \<not> is_channel_usable ch refund_channel (amount (lock refund_transfer))
        (expiration (lock refund_transfer) - block_number)"
  then show "result_of (mediate_transfer ch state possible_routes payer_channel chans prng
           payer_transfer' block_number) = Inr \<lparr>new_state = Some state, events = []\<rparr>"
    using mediate_transfer_no_route_no_refund by blast
next
  assume "secret mediator_state = None \<and>
    transfers_pair mediator_state \<noteq> [] \<and>
    sanity_check mediator_state = Inr () \<and>
    chans (BalanceProof.channel_identifier (balance_proof received_refund)) =
      Some refunding_channel \<and>
    channel_handle_refundtransfer ch
      (payee_transfer (last (transfers_pair mediator_state))) refunding_channel
      (ReceiveTransferRefund received_refund refund_routes) =
      ((True, channel_events), refunding_channel') \<and>
    address (partner_state refunding_channel') = sender (balance_proof received_refund) \<and>
    next_channel_from_routes ch
      (filter_used_routes (transfers_pair mediator_state) refund_routes)
      (chans(BalanceProof.channel_identifier (balance_proof received_refund) \<mapsto>
         refunding_channel'))
      (amount (lock received_refund))
      (expiration (lock received_refund) - block_number) = None \<and>
    refund_target mediator_state refunding_channel' received_refund
      (chans(BalanceProof.channel_identifier (balance_proof received_refund) \<mapsto>
         refunding_channel')) = Some (first_channel, first_transfer) \<and>
    \<not> is_channel_usable ch first_channel (amount (lock first_transfer))
        (expiration (lock first_transfer) - block_number)"
  then show "result_of (state_transition ch (Some mediator_state)
           (ReceiveTransferRefund received_refund refund_routes) chans prng block_number) =
         Inr \<lparr>new_state = Some mediator_state, events = channel_events\<rparr>"
    using refund_transition_retained by blast
next
  assume "chans (RouteState.channel_identifier from_route) = Some arriving_channel \<and>
    channel_handle_receive_lockedtransfer ch arriving_channel from_transfer =
      ((True, init_events), arriving_channel') \<and>
    address (partner_state arriving_channel') = sender (balance_proof from_transfer) \<and>
    next_channel_from_routes ch (filter_used_routes [] init_routes)
      (chans(RouteState.channel_identifier from_route \<mapsto> arriving_channel'))
      (amount (lock from_transfer)) (expiration (lock from_transfer) - block_number) = None \<and>
    \<not> is_channel_usable ch arriving_channel' (amount (lock from_transfer))
        (expiration (lock from_transfer) - block_number)"
  then show "result_of (state_transition ch None
           (ActionInitMediator init_routes from_route from_transfer) chans prng block_number) =
         Inr \<lparr>new_state = None, events = init_events\<rparr>"
    using init_transition_dropped by blast
next
  assume "transfers_pair mediator_state \<noteq> [] \<and>
    state_transition ch (Some mediator_state) state_change' chans prng block_number =
      Inr (iteration, chans', prng') \<and>
    new_state iteration = None"
  then have ne: "transfers_pair mediator_state \<noteq> []"
    and st: "state_transition ch (Some mediator_state) state_change' chans prng block_number =
      Inr (iteration, chans', prng')"
    and none: "new_state iteration = None"
    by simp_all
  show "(\<exists>state' events' chans1 prng1.
           state_transition_dispatch ch (Some mediator_state) state_change' chans prng
             block_number = Inr (\<lparr>new_state = Some state', events = events'\<rparr>, chans1, prng1) \<and>
           transfers_pair state' \<noteq> [] \<and> fully_paid state') \<or>
        (\<exists>n. state_change' = Block n \<and> cleanup_threshold_crossed ch mediator_state n chans) \<or>
        (\<exists>from_route'. state_change' = ReceiveLockExpired from_route') \<or>
        (\<exists>refund_transfer' refund_routes' payer_channel'.
           state_change' = ReceiveTransferRefund refund_transfer' refund_routes' \<and>
           secret mediator_state = None \<and>
           chans (BalanceProof.channel_identifier (balance_proof refund_transfer')) =
             Some payer_channel' \<and>
           \<not> fst (fst (channel_handle_refundtransfer ch
                         (payee_transfer (last (transfers_pair mediator_state))) payer_channel'
                         (ReceiveTransferRefund refund_transfer' refund_routes'))))"
    by (rule state_destroyed_cases [OF ne st none])
qed

lemmas mediate_defs = mediate_transfer_def filter_used_routes_def next_transfer_pair_def
  refund_target_def events_for_refund_transfer_def is_channel_usable_def ex_route_def
  ex_refund_transfer_def

theorem no_route_no_refund_and_lifecycle_witness:
  "result_of (mediate_transfer ex_ch ex_state [ex_route] (2, ex_payee_channel) ex_chans 0
     ex_refund_transfer 95) = Inr \<lparr>new_state = Some ex_state, events = []\<rparr> \<and>
   result_of (state_transition ex_ch (Some ex_state)
     (ReceiveTransferRefund ex_refund_transfer [ex_route]) ex_chans 0 95) =
     Inr \<lparr>new_state = Some ex_state, events = []\<rparr> \<and>
   result_of (state_transition ex_ch None
     (ActionInitMediator [ex_route] ex_from_route ex_payer_transfer) ex_chans 0 95) =
     Inr \<lparr>new_state = None, events = []\<rparr> \<and>
   transfers_pair ex_state \<noteq> [] \<and>
   result_of (state_transition ex_ch (Some ex_state) (ReceiveLockExpired ex_route) ex_chans 0 50) =
     Inr \<lparr>new_state = None, events = []\<rparr>"
proof -
  have preA: "address (partner_state (snd (2::nat, ex_payee_channel))) =
      sender (balance_proof ex_refund_transfer) \<and>
    next_channel_from_routes ex_ch
      (filter_used_routes (transfers_pair ex_state) [ex_route]) ex_chans
      (amount (lock ex_refund_transfer)) (expiration (lock ex_refund_transfer) - 95) = None \<and>
    refund_target ex_state (snd (2::nat, ex_payee_channel)) ex_refund_transfer ex_chans =
      Some (ex_payer_channel, ex_payer_transfer) \<and>
    \<not> is_channel_usable ex_ch ex_payer_channel (amount (lock ex_payer_transfer))
        (expiration (lock ex_payer_transfer) - 95)"
    by (simp add: mediate_defs ex_defs Let_def)
  have preB: "secret ex_state = None \<and>
    transfers_pair ex_state \<noteq> [] \<and>
    sanity_check ex_state = Inr () \<and>
    ex_chans (BalanceProof.channel_identifier (balance_proof ex_refund_transfer)) =
      Some ex_payee_channel \<and>
    channel_handle_refundtransfer ex_ch
      (payee_transfer (last (transfers_pair ex_state))) ex_payee_channel
      (ReceiveTransferRefund ex_refund_transfer [ex_route]) =
      ((True, []), ex_payee_channel) \<and>
    address (partner_state ex_payee_channel) = sender (balance_proof ex_refund_transfer) \<and>
    next_channel_from_routes ex_ch
      (filter_used_routes (transfers_pair ex_state) [ex_route])
      (ex_chans(BalanceProof.channel_identifier (balance_proof ex_refund_transfer) \<mapsto>
         ex_payee_channel))
      (amount (lock ex_refund_transfer))
      (expiration (lock ex_refund_transfer) - 95) = None \<and>
    refund_target ex_state ex_payee_channel ex_refund_transfer
      (ex_chans(BalanceProof.channel_identifier (balance_proof ex_refund_transfer) \<mapsto>
         ex_payee_channel)) = Some (ex_payer_channel, ex_payer_transfer) \<and>
    \<not> is_channel_usable ex_ch ex_payer_channel (amount (lock ex_payer_transfer))
        (expiration (lock ex_payer_transfer) - 95)"
    by (simp add: mediate_defs ex_defs sanity_defs Let_def)
  have preC: "ex_chans (RouteState.channel_identifier ex_from_route) = Some ex_payer_channel \<and>
    channel_handle_receive_lockedtransfer ex_ch ex_payer_channel ex_payer_transfer =
      ((True, []), ex_payer_channel) \<and>
    address (partner_state ex_payer_channel) = sender (balance_proof ex_payer_transfer) \<and>
    next_channel_from_routes ex_ch (filter_used_routes [] [ex_route])
      (ex_chans(RouteState.channel_identifier ex_from_route \<mapsto> ex_payer_channel))
      (amount (lock ex_payer_transfer)) (expiration (lock ex_payer_transfer) - 95) = None \<and>
    \<not> is_channel_usable ex_ch ex_payer_channel (amount (lock ex_payer_transfer))
        (expiration (lock ex_payer_transfer) - 95)"
    by (simp add: mediate_defs ex_defs ex_from_route_def Let_def)
  have r: "result_of (state_transition ex_ch (Some ex_state) (ReceiveLockExpired ex_route)
      ex_chans 0 50) = Inr \<lparr>new_state = None, events = []\<rparr>"
    by (simp add: state_transition_def state_transition_dispatch_def handle_lock_expired_def
          result_of_def clear_if_finalized_def ex_defs ex_route_def Let_def)
  from result_ofD [OF r] obtain c p where
    h: "state_transition ex_ch (Some ex_state) (ReceiveLockExpired ex_route) ex_chans 0 50 =
          Inr (\<lparr>new_state = None, events = []\<rparr>, c, p)"
    by blast
  have ne: "transfers_pair ex_state \<noteq> []"
    by (simp add: ex_state_def)
  have A: "result_of (mediate_transfer ex_ch ex_state [ex_route] (2, ex_payee_channel) ex_chans 0
     ex_refund_transfer 95) = Inr \<lparr>new_state = Some ex_state, events = []\<rparr>"
    using no_route_no_refund_and_lifecycle
      [where payer_channel = "(2, ex_payee_channel)" and payer_transfer' = ex_refund_transfer
         and ch = ex_ch and state = ex_state and possible_routes = "[ex_route]"
         and chans = ex_chans and block_number = 95 and refund_channel = ex_payer_channel
         and refund_transfer = ex_payer_transfer and prng = 0]
      preA
    by blast
  have B: "result_of (state_transition ex_ch (Some ex_state)
     (ReceiveTransferRefund ex_refund_transfer [ex_route]) ex_chans 0 95) =
     Inr \<lparr>new_state = Some ex_state, events = []\<rparr>"
    using no_route_no_refund_and_lifecycle
      [where ch = ex_ch and mediator_state = ex_state and received_refund = ex_refund_transfer
         and refund_routes = "[ex_route]" and chans = ex_chans and block_number = 95
         and refunding_channel = ex_payee_channel and refunding_channel' = ex_payee_channel
         and channel_events = "[]" and first_channel = ex_payer_channel
         and first_transfer = ex_payer_transfer and prng = 0]
      preB
    by blast
  have C: "result_of (state_transition ex_ch None
     (ActionInitMediator [ex_route] ex_from_route ex_payer_transfer) ex_chans 0 95) =
     Inr \<lparr>new_state = None, events = []\<rparr>"
    using no_route_no_refund_and_lifecycle
      [where ch = ex_ch and from_route = ex_from_route and from_transfer = ex_payer_transfer
         and init_routes = "[ex_route]" and chans = ex_chans and block_number = 95
         and arriving_channel = ex_payer_channel and arriving_channel' = ex_payer_channel
         and init_events = "[]" and prng = 0]
      preC
    by blast
  have D: "(\<exists>state' events' chans1 prng1.
           state_transition_dispatch ex_ch (Some ex_state) (ReceiveLockExpired ex_route) ex_chans 0
             50 = Inr (\<lparr>new_state = Some state', events = events'\<rparr>, chans1, prng1) \<and>
           transfers_pair state' \<noteq> [] \<and> fully_paid state') \<or>
        (\<exists>n. ReceiveLockExpired ex_route = Block n \<and>
              cleanup_threshold_crossed ex_ch ex_state n ex_chans) \<or>
        (\<exists>from_route'. ReceiveLockExpired ex_route = ReceiveLockExpired from_route') \<or>
        (\<exists>refund_transfer' refund_routes' payer_channel'.
           ReceiveLockExpired ex_route = ReceiveTransferRefund refund_transfer' refund_routes' \<and>
           secret ex_state = None \<and>
           ex_chans (BalanceProof.channel_identifier (balance_proof refund_transfer')) =
             Some payer_channel' \<and>
           \<not> fst (fst (channel_handle_refundtransfer ex_ch
                         (payee_transfer (last (transfers_pair ex_state))) payer_channel'
                         (ReceiveTransferRefund refund_transfer' refund_routes'))))"
    using no_route_no_refund_and_lifecycle
      [where ch = ex_ch and chans = ex_chans and block_number = 50 and prng = 0
         and mediator_state = ex_state and state_change' = "ReceiveLockExpired ex_route"
         and iteration = "\<lparr>new_state = None, events = []\<rparr>" and chans' = c and prng' = p]
      h ne
    by simp
  from A B C ne r show ?thesis by simp
qed

text \<open>
  C6 as stated fails twice. With no pair, no usable route and an unusable payer channel,
  \<open>mediate_transfer\<close> returns the state, but the transition of the \<open>ActionInitMediator\<close>
  returns none: the transfer is not retained. And \<open>ReceiveLockExpired\<close> destroys a state
  with a pair that is neither fully paid nor past the cleanup threshold.
\<close>

theorem transfer_dropped_and_state_destroyed:
  "transfers_pair ex_state_new = [] \<and>
   next_channel_from_routes ex_ch (filter_used_routes (transfers_pair ex_state_new) [ex_route])
     ex_chans (amount (lock ex_payer_transfer)) (expiration (lock ex_payer_transfer) - 95) = None \<and>
   \<not> is_channel_usable ex_ch ex_payer_channel (amount (lock ex_payer_transfer))
       (expiration (lock ex_payer_transfer) - 95) \<and>
   result_of (mediate_transfer ex_ch ex_state_new [ex_route] (1, ex_payer_channel) ex_chans 0
     ex_payer_transfer 95) = Inr \<lparr>new_state = Some ex_state_new, events = []\<rparr> \<and>
   result_of (state_transition ex_ch None
     (ActionInitMediator [ex_route] ex_from_route ex_payer_transfer) ex_chans 0 95) =
     Inr \<lparr>new_state = None, events = []\<rparr> \<and>
   result_of (state_transition ex_ch (Some ex_state) (ReceiveLockExpired ex_route) ex_chans 0 50) =
     Inr \<lparr>new_state = None, events = []\<rparr> \<and>
   transfers_pair ex_state \<noteq> [] \<and>
   \<not> fully_paid ex_state \<and>
   \<not> cleanup_threshold_crossed ex_ch ex_state 50 ex_chans"
  by (simp add: state_transition_def state_transition_dispatch_def handle_lock_expired_def
        handle_init_def sanity_check_def
        result_of_def clear_if_finalized_def fully_paid_def cleanup_threshold_crossed_def
        STATE_TRANSFER_PAID_def mediate_defs ex_defs ex_state_new_def ex_from_route_def Let_def)

subsection \<open>Expiry of the locks\<close>

lemma expired_pair_not_both_paid:
  assumes "get_pending_transfer_pairs [p] \<noteq> []"
  shows "\<not> (payee_state (expired_pair bn p) \<in> set STATE_TRANSFER_PAID \<and>
            payer_state (expired_pair bn p) \<in> set STATE_TRANSFER_PAID)"
  using assms
  by (auto simp: expired_pair_def pending_single STATE_TRANSFER_PAID_def STATE_TRANSFER_FINAL_def
      split: if_splits)

lemma handle_block_expiry_step:
  assumes "handle_block ch mediator_state n chans prng block_number =
             Inr (iteration, chans', prng')"
    and "new_state iteration = Some state'"
    and "i < length (transfers_pair mediator_state)"
    and "payee_state (transfers_pair mediator_state ! i) \<notin> set STATE_TRANSFER_FINAL \<or>
         payer_state (transfers_pair mediator_state ! i) \<notin> set STATE_TRANSFER_FINAL"
  shows
    "let pair = transfers_pair mediator_state ! i;
         pair' = transfers_pair state' ! i;
         payer_expires = (block_number > expiration (lock (payer_transfer pair)) \<and>
                          payer_state pair \<noteq> ''payer_expired'');
         payee_expires = (block_number > expiration (lock (payee_transfer pair)) \<and>
                          payee_state pair \<noteq> ''payee_expired'')
     in length (transfers_pair state') = length (transfers_pair mediator_state) \<and>
        payer_state pair' = (if payer_expires then ''payer_expired'' else payer_state pair) \<and>
        payee_state pair' = (if payee_expires then ''payee_expired'' else payee_state pair) \<and>
        (\<exists>reveal_events.
           events_for_onchain_secretreveal ch chans (transfers_pair mediator_state)
             block_number = Inr reveal_events \<and>
           events iteration =
             snd (set_expired_pairs (take i (transfers_pair mediator_state)) block_number) @
             (if payer_expires
              then [EventUnlockClaimFailed (payment_identifier (payer_transfer pair))
                      (Lock.secrethash (lock (payer_transfer pair))) ''lock expired'']
              else []) @
             (if payee_expires
              then [EventUnlockFailed (payment_identifier (payee_transfer pair))
                      (Lock.secrethash (lock (payee_transfer pair))) ''lock expired'']
              else []) @
             snd (set_expired_pairs (drop (Suc i) (transfers_pair mediator_state))
                    block_number) @
             reveal_events) \<and>
        (block_number = expiration (lock (payer_transfer pair)) \<longrightarrow>
           payer_state pair' = payer_state pair) \<and>
        (block_number = expiration (lock (payee_transfer pair)) \<longrightarrow>
           payee_state pair' = payee_state pair) \<and>
        (\<forall>iteration2 chans2 prng2.
           state_transition ch (Some mediator_state) (Block n) chans prng block_number =
             Inr (iteration2, chans2, prng2) \<longrightarrow>
           iteration2 = iteration)"
proof -
  let ?ps = "transfers_pair mediator_state"
  let ?p = "?ps ! i"
  have pend: "get_pending_transfer_pairs [?p] \<noteq> []"
    using assms(4) by (simp add: pending_single)
  have ns: "new_state iteration \<noteq> None" using assms(2) by simp
  from handle_block_cases [OF assms(1) ns] obtain revs where
    r: "events_for_onchain_secretreveal ch chans ?ps block_number = Inr revs"
    and it: "iteration =
      \<lparr>new_state = Some (mediator_state\<lparr>transfers_pair := map (expired_pair block_number) ?ps\<rparr>),
       events = concat (map (expired_events block_number) ?ps) @ revs\<rparr>"
    by blast
  from it assms(2) have st: "transfers_pair state' = map (expired_pair block_number) ?ps"
    by auto
  have ev: "expired_events block_number ?p =
      (if block_number > expiration (lock (payer_transfer ?p)) \<and>
              payer_state ?p \<noteq> ''payer_expired''
           then [EventUnlockClaimFailed (payment_identifier (payer_transfer ?p))
                   (Lock.secrethash (lock (payer_transfer ?p))) ''lock expired'']
           else []) @
          (if block_number > expiration (lock (payee_transfer ?p)) \<and>
              payee_state ?p \<noteq> ''payee_expired''
           then [EventUnlockFailed (payment_identifier (payee_transfer ?p))
                   (Lock.secrethash (lock (payee_transfer ?p))) ''lock expired'']
           else [])"
    using pend by (simp add: expired_events_def)
  have evs: "events iteration =
      snd (set_expired_pairs (take i ?ps) block_number) @
      expired_events block_number ?p @
      snd (set_expired_pairs (drop (Suc i) ?ps) block_number) @ revs"
    using it by (simp add: set_expired_pairs_eq
        events_split [OF assms(3), of "expired_events block_number"])
  have same: "iteration2 = iteration"
    if s: "state_transition ch (Some mediator_state) (Block n) chans prng block_number =
             Inr (iteration2, chans2, prng2)" for iteration2 chans2 prng2
  proof -
    have "\<not> list_all (\<lambda>pair. payee_state pair \<in> set STATE_TRANSFER_PAID \<and>
                              payer_state pair \<in> set STATE_TRANSFER_PAID)
              (map (expired_pair block_number) ?ps)"
    proof
      assume "list_all (\<lambda>pair. payee_state pair \<in> set STATE_TRANSFER_PAID \<and>
                              payer_state pair \<in> set STATE_TRANSFER_PAID)
              (map (expired_pair block_number) ?ps)"
      then have "payee_state (expired_pair block_number ?p) \<in> set STATE_TRANSFER_PAID \<and>
                 payer_state (expired_pair block_number ?p) \<in> set STATE_TRANSFER_PAID"
        using assms(3) by (simp add: list_all_length)
      with expired_pair_not_both_paid [OF pend] show False by blast
    qed
    then have "clear_if_finalized iteration = iteration"
      using it by (simp add: clear_if_finalized_def Let_def)
    with s assms(1) it show ?thesis
      by (auto simp: state_transition_def state_transition_dispatch_def split: sum.splits)
  qed
  show ?thesis
    unfolding Let_def st
    using assms(3) pend r evs ev same
    by (simp add: expired_pair_def)
qed

text \<open>
  C4 (amended). Whenever the transition of a Block state change returns a mediator
  state, every pair of the given state that is not in a final state is treated as
  follows: \<open>payer_state\<close> is set to \<open>payer_expired\<close> and one \<open>EventUnlockClaimFailed\<close> is
  emitted exactly when the block number is above the payer lock expiration and the
  payer side is not yet expired; \<open>payee_state\<close> is set to \<open>payee_expired\<close> and one
  \<open>EventUnlockFailed\<close> is emitted exactly when the block number is above the payee lock
  expiration and the payee side is not yet expired. The events of the pair stand
  between those of the pairs before it and those of the pairs after it, and the events
  of the on-chain secret reveal follow. At a block number equal to the lock expiration
  neither side expires.
\<close>

theorem block_transition_expiry_rule:
  assumes "state_transition ch (Some mediator_state) (Block n) chans prng block_number =
             Inr (iteration, chans', prng')"
    and "new_state iteration = Some state'"
    and "i < length (transfers_pair mediator_state)"
    and "payee_state (transfers_pair mediator_state ! i) \<notin> set STATE_TRANSFER_FINAL \<or>
         payer_state (transfers_pair mediator_state ! i) \<notin> set STATE_TRANSFER_FINAL"
  shows
    "let pair = transfers_pair mediator_state ! i;
         pair' = transfers_pair state' ! i;
         payer_expires = (block_number > expiration (lock (payer_transfer pair)) \<and>
                          payer_state pair \<noteq> ''payer_expired'');
         payee_expires = (block_number > expiration (lock (payee_transfer pair)) \<and>
                          payee_state pair \<noteq> ''payee_expired'')
     in length (transfers_pair state') = length (transfers_pair mediator_state) \<and>
        payer_state pair' = (if payer_expires then ''payer_expired'' else payer_state pair) \<and>
        payee_state pair' = (if payee_expires then ''payee_expired'' else payee_state pair) \<and>
        (\<exists>reveal_events.
           events_for_onchain_secretreveal ch chans (transfers_pair mediator_state)
             block_number = Inr reveal_events \<and>
           events iteration =
             snd (set_expired_pairs (take i (transfers_pair mediator_state)) block_number) @
             (if payer_expires
              then [EventUnlockClaimFailed (payment_identifier (payer_transfer pair))
                      (Lock.secrethash (lock (payer_transfer pair))) ''lock expired'']
              else []) @
             (if payee_expires
              then [EventUnlockFailed (payment_identifier (payee_transfer pair))
                      (Lock.secrethash (lock (payee_transfer pair))) ''lock expired'']
              else []) @
             snd (set_expired_pairs (drop (Suc i) (transfers_pair mediator_state))
                    block_number) @
             reveal_events) \<and>
        (block_number = expiration (lock (payer_transfer pair)) \<longrightarrow>
           payer_state pair' = payer_state pair) \<and>
        (block_number = expiration (lock (payee_transfer pair)) \<longrightarrow>
           payee_state pair' = payee_state pair)"
proof -
  from assms(1) obtain it0 where
    hb: "handle_block ch mediator_state n chans prng block_number = Inr (it0, chans', prng')"
    and it: "iteration = clear_if_finalized it0"
    by (auto simp: state_transition_def state_transition_dispatch_def
        split: sum.splits option.splits prod.splits)
  have "new_state it0 \<noteq> None"
  proof
    assume none: "new_state it0 = None"
    then have "clear_if_finalized it0 = it0"
      by (simp add: clear_if_finalized_def)
    with it assms(2) none show False by simp
  qed
  then obtain s0 where s0: "new_state it0 = Some s0" by blast
  note step = handle_block_expiry_step [OF hb s0 assms(3) assms(4)]
  from step assms(1) have same: "iteration = it0"
    by (simp add: Let_def)
  with s0 assms(2) have "s0 = state'" by simp
  with step same show ?thesis
    by (simp add: Let_def)
qed

theorem block_transition_expiry_rule_witness:
  "result_of (state_transition ex_ch (Some ex_state) (Block 101) ex_chans 0 101) =
     Inr \<lparr>new_state =
            Some (ex_state\<lparr>transfers_pair :=
              [ex_pair\<lparr>payer_state := ''payer_expired'', payee_state := ''payee_expired''\<rparr>]\<rparr>),
          events =
            [EventUnlockClaimFailed 1 7 ''lock expired'', EventUnlockFailed 1 7 ''lock expired'',
             ContractSendSecretReveal 100 42]\<rparr> \<and>
   result_of (state_transition ex_ch (Some ex_state) (Block 100) ex_chans 0 100) =
     Inr \<lparr>new_state = Some ex_state, events = [ContractSendSecretReveal 100 42]\<rparr>"
proof -
  have i: "0 < length (transfers_pair ex_state)"
    by (simp add: ex_state_def)
  have p: "payee_state (transfers_pair ex_state ! 0) \<notin> set STATE_TRANSFER_FINAL \<or>
           payer_state (transfers_pair ex_state ! 0) \<notin> set STATE_TRANSFER_FINAL"
    by (simp add: ex_defs STATE_TRANSFER_FINAL_def)
  have r101: "result_of (state_transition ex_ch (Some ex_state) (Block 101) ex_chans 0 101) =
     Inr \<lparr>new_state =
            Some (ex_state\<lparr>transfers_pair :=
              [ex_pair\<lparr>payer_state := ''payer_expired'', payee_state := ''payee_expired''\<rparr>]\<rparr>),
          events =
            [EventUnlockClaimFailed 1 7 ''lock expired'', EventUnlockFailed 1 7 ''lock expired'',
             ContractSendSecretReveal 100 42]\<rparr>"
    by (simp add: state_transition_def state_transition_dispatch_def block_defs ex_defs
          sanity_defs)
  have r100: "result_of (state_transition ex_ch (Some ex_state) (Block 100) ex_chans 0 100) =
     Inr \<lparr>new_state = Some ex_state, events = [ContractSendSecretReveal 100 42]\<rparr>"
    by (simp add: state_transition_def state_transition_dispatch_def block_defs ex_defs
          sanity_defs)
  from result_ofD [OF r101] obtain c g where
    h101: "state_transition ex_ch (Some ex_state) (Block 101) ex_chans 0 101 =
      Inr (\<lparr>new_state =
            Some (ex_state\<lparr>transfers_pair :=
              [ex_pair\<lparr>payer_state := ''payer_expired'', payee_state := ''payee_expired''\<rparr>]\<rparr>),
          events =
            [EventUnlockClaimFailed 1 7 ''lock expired'', EventUnlockFailed 1 7 ''lock expired'',
             ContractSendSecretReveal 100 42]\<rparr>, c, g)"
    by blast
  from result_ofD [OF r100] obtain c' g' where
    h100: "state_transition ex_ch (Some ex_state) (Block 100) ex_chans 0 100 =
      Inr (\<lparr>new_state = Some ex_state, events = [ContractSendSecretReveal 100 42]\<rparr>, c', g')"
    by blast
  have t101: "payer_state
      (transfers_pair (ex_state\<lparr>transfers_pair :=
         [ex_pair\<lparr>payer_state := ''payer_expired'', payee_state := ''payee_expired''\<rparr>]\<rparr>) ! 0) =
      ''payer_expired''"
    using block_transition_expiry_rule [OF h101 _ i p]
    by (simp add: Let_def ex_defs)
  have t100: "payer_state (transfers_pair ex_state ! 0) = ''payer_pending''"
    using block_transition_expiry_rule [OF h100 _ i p]
    by (simp add: Let_def ex_defs)
  from r101 r100 t101 t100 show ?thesis by simp
qed

text \<open>
  C4 as stated fails for a Block past the cleanup threshold: \<open>handle_block\<close> returns
  before the expiry step. At block 106 the pending pair, whose locks expired at 100, is
  not marked as expired and neither \<open>EventUnlockClaimFailed\<close> nor \<open>EventUnlockFailed\<close> is
  emitted; the transition returns no state and the events of the channel alone.
\<close>

theorem block_cleanup_skips_expiry:
  "transfers_pair ex_state = [ex_pair] \<and>
   payer_state ex_pair = ''payer_pending'' \<and>
   payee_state ex_pair = ''payee_pending'' \<and>
   expiration (lock (payer_transfer ex_pair)) = 100 \<and>
   expiration (lock (payee_transfer ex_pair)) = 100 \<and>
   cleanup_threshold_crossed ex_ch ex_state 106 ex_chans \<and>
   result_of (state_transition ex_ch (Some ex_state) (Block 106) ex_chans 0 106) =
     Inr \<lparr>new_state = None, events = [ChannelEvent 3]\<rparr>"
  by (simp add: state_transition_def state_transition_dispatch_def clear_if_finalized_def
        cleanup_threshold_crossed_def block_defs ex_defs)




subsection \<open>The transport\<close>

lemma get_channel_queue_senthashes [simp]:
  "senthashes_to_states (get_channel_queue self r t) = senthashes_to_states self"
  by (simp add: get_channel_queue_def get_health_events_def start_health_check_def Let_def)

lemma queue_put_senthashes [simp]:
  "senthashes_to_states (queue_put self key item) = senthashes_to_states self"
  by (simp add: queue_put_def)

lemma send_async_stored:
  assumes "send_async raiden self receiver_address' message' = Inr (result', self')"
  shows "\<exists>waitack.
           senthashes_to_states self'
             (sha3 raiden (encode raiden message' @ receiver_address')) = Some waitack \<and>
           async_result waitack = result'"
  using assms
  by (auto simp: send_async_def Let_def split: if_splits option.splits)

lemma send_async_known:
  assumes "isaddress raiden receiver_address'"
    and "\<not> is_Ack message'" and "\<not> is_Ping message'"
    and "length (encode raiden message') \<le> UDP_MAX_MESSAGE_SIZE"
    and "senthashes_to_states self
           (sha3 raiden (encode raiden message' @ receiver_address')) = Some waitack"
  shows "send_async raiden self receiver_address' message' = Inr (async_result waitack, self)"
  using assms by (simp add: send_async_def Let_def)

text \<open>
  C9. A second call of \<open>send_async\<close> with the same message and receiver address, that
  is with an echohash that \<open>senthashes_to_states\<close> already holds, returns the same
  \<open>AsyncResult\<close> as the first call and leaves the protocol as it is; in particular the
  message data is not put into the queue again. The same holds for a call in any later
  state of the protocol that still holds the entry of the echohash.
\<close>

theorem send_async_idempotent:
  assumes "send_async raiden self receiver_address' message' = Inr (result', self')"
  shows "send_async raiden self' receiver_address' message' = Inr (result', self') \<and>
         (\<forall>later.
            senthashes_to_states later
              (sha3 raiden (encode raiden message' @ receiver_address')) =
            senthashes_to_states self'
              (sha3 raiden (encode raiden message' @ receiver_address')) \<longrightarrow>
            send_async raiden later receiver_address' message' = Inr (result', later))"
proof -
  from assms have v: "isaddress raiden receiver_address'" "\<not> is_Ack message'"
    "\<not> is_Ping message'" "length (encode raiden message') \<le> UDP_MAX_MESSAGE_SIZE"
    by (auto simp: send_async_def Let_def split: if_splits)
  from send_async_stored [OF assms] obtain waitack where
    w: "senthashes_to_states self'
       (sha3 raiden (encode raiden message' @ receiver_address')) = Some waitack"
    and r: "async_result waitack = result'"
    by blast
  have "send_async raiden later receiver_address' message' = Inr (result', later)"
    if "senthashes_to_states later
              (sha3 raiden (encode raiden message' @ receiver_address')) =
            senthashes_to_states self'
              (sha3 raiden (encode raiden message' @ receiver_address'))" for later
    using send_async_known [OF v, of later waitack] that w r by simp
  then show ?thesis by blast
qed

lemmas send_defs = send_async_def get_channel_queue_def get_health_events_def
  start_health_check_def queue_put_def UDP_MAX_MESSAGE_SIZE_def Let_def
  ex_raiden_def ex_protocol_def ex_message_def

theorem send_async_idempotent_witness:
  "future_of (send_async ex_raiden ex_protocol [2] ex_message) = Inr 0 \<and>
   queues_of (send_async ex_raiden ex_protocol [2] ex_message) ([2], []) = Some [[9]] \<and>
   future_of (then_send_async ex_raiden (send_async ex_raiden ex_protocol [2] ex_message)
                [2] ex_message) = Inr 0 \<and>
   queues_of (then_send_async ex_raiden (send_async ex_raiden ex_protocol [2] ex_message)
                [2] ex_message) ([2], []) = Some [[9]]"
proof -
  have f: "future_of (send_async ex_raiden ex_protocol [2] ex_message) = Inr 0"
    by (simp add: future_of_def send_defs)
  have q: "queues_of (send_async ex_raiden ex_protocol [2] ex_message) ([2], []) = Some [[9]]"
    by (simp add: queues_of_def send_defs)
  from f obtain self' where
    s: "send_async ex_raiden ex_protocol [2] ex_message = Inr (0, self')"
    by (auto simp: future_of_def split: sum.splits)
  from q s have q': "channel_queue self' ([2], []) = Some [[9]]"
    by (simp add: queues_of_def)
  show ?thesis
    using conjunct1 [OF send_async_idempotent [OF s]] s q' f q
    by (simp add: then_send_async_def future_of_def queues_of_def)
qed

lemma receive_cached:
  assumes "length data \<le> UDP_MAX_MESSAGE_SIZE"
    and "receivedhashes_to_acks self (sha3 raiden (data @ our_address raiden)) =
           Some (host_port', messagedata)"
    and "message_sender (decode raiden data) = Inr sender'"
    and "get_host_port self sender' = Inr current"
  shows "\<exists>self2. receive raiden self data = Inr self2 \<and>
           on_message_calls self2 = on_message_calls self \<and>
           transport_sent self2 =
             transport_sent self @ (if transport_started self then [(current, messagedata)] else []) \<and>
           receivedhashes_to_acks self2 (sha3 raiden (data @ our_address raiden)) =
             Some (current, messagedata)"
  using assms
  by (simp add: receive_def Let_def maybe_send_ack_raw_def)

lemma receive_first:
  assumes "length data \<le> UDP_MAX_MESSAGE_SIZE"
    and "receivedhashes_to_acks self (sha3 raiden (data @ our_address raiden)) = None"
    and "is_SignedMessage (decode raiden data)"
    and "message_sender (decode raiden data) = Inr sender'"
    and "fst (on_message raiden (host self) (decode raiden data)
               (sha3 raiden (data @ our_address raiden))) = None"
    and "isaddress raiden sender'"
    and "get_host_port self sender' = Inr host_port'"
  shows "\<exists>self1. receive raiden self data = Inr self1 \<and>
           on_message_calls self1 =
             on_message_calls self @
               [(decode raiden data, sha3 raiden (data @ our_address raiden))] \<and>
           receivedhashes_to_acks self1 (sha3 raiden (data @ our_address raiden)) =
             Some (host_port',
                   encode raiden (Ack (our_address raiden)
                                    (sha3 raiden (data @ our_address raiden)))) \<and>
           transport_started self1 = transport_started self \<and>
           transport_sent self1 =
             transport_sent self @
               (if transport_started self
                then [(host_port',
                       encode raiden (Ack (our_address raiden)
                                        (sha3 raiden (data @ our_address raiden))))]
                else [])"
proof -
  have na: "\<not> is_Ack (decode raiden data)"
    using assms(3) by (cases "decode raiden data") simp_all
  obtain raised host' where
    om: "on_message raiden (host self) (decode raiden data)
           (sha3 raiden (data @ our_address raiden)) = (raised, host')"
    by (cases "on_message raiden (host self) (decode raiden data)
           (sha3 raiden (data @ our_address raiden))")
  with assms(5) have r: "raised = None" by simp
  show ?thesis
    using assms(1,2,3,4,6,7) na om r
    by (simp add: receive_def Let_def maybe_send_ack_def maybe_send_ack_raw_def)
qed

text \<open>
  C8 (amended). When a datagram of a signed message is received for the first time and
  handled without an exception (the handler of the host returns, the sender is an
  address and discovery knows its endpoint), the handler is called exactly once and the
  Ack is cached. A second receipt of the same bytes, whatever endpoint discovery then
  gives for the sender, does not call the handler; it sends the cached Ack to the
  current endpoint if the transport is started, and the cache holds the current
  endpoint afterwards.
\<close>

theorem receive_duplicate:
  assumes "length data \<le> UDP_MAX_MESSAGE_SIZE"
    and "receivedhashes_to_acks self (sha3 raiden (data @ our_address raiden)) = None"
    and "is_SignedMessage (decode raiden data)"
    and "message_sender (decode raiden data) = Inr sender'"
    and "fst (on_message raiden (host self) (decode raiden data)
               (sha3 raiden (data @ our_address raiden))) = None"
    and "isaddress raiden sender'"
    and "get_host_port self sender' = Inr host_port'"
  shows "\<exists>self1.
           receive raiden self data = Inr self1 \<and>
           on_message_calls self1 =
             on_message_calls self @
               [(decode raiden data, sha3 raiden (data @ our_address raiden))] \<and>
           (\<forall>discovery current.
              discovery sender' = Inr current \<longrightarrow>
              (\<exists>self2.
                 receive raiden (self1\<lparr>get_host_port := discovery\<rparr>) data = Inr self2 \<and>
                 on_message_calls self2 = on_message_calls self1 \<and>
                 transport_sent self2 =
                   transport_sent self1 @
                     (if transport_started self1
                      then [(current,
                             encode raiden (Ack (our_address raiden)
                                              (sha3 raiden (data @ our_address raiden))))]
                      else []) \<and>
                 receivedhashes_to_acks self2 (sha3 raiden (data @ our_address raiden)) =
                   Some (current,
                         encode raiden (Ack (our_address raiden)
                                          (sha3 raiden (data @ our_address raiden))))))"
proof -
  from receive_first [OF assms] obtain self1 where
    r1: "receive raiden self data = Inr self1"
    and c1: "on_message_calls self1 =
             on_message_calls self @
               [(decode raiden data, sha3 raiden (data @ our_address raiden))]"
    and a1: "receivedhashes_to_acks self1 (sha3 raiden (data @ our_address raiden)) =
             Some (host_port',
                   encode raiden (Ack (our_address raiden)
                                    (sha3 raiden (data @ our_address raiden))))"
    by blast
  have "\<exists>self2.
          receive raiden (self1\<lparr>get_host_port := discovery\<rparr>) data = Inr self2 \<and>
          on_message_calls self2 = on_message_calls self1 \<and>
          transport_sent self2 =
            transport_sent self1 @
              (if transport_started self1
               then [(current,
                      encode raiden (Ack (our_address raiden)
                                       (sha3 raiden (data @ our_address raiden))))]
               else []) \<and>
          receivedhashes_to_acks self2 (sha3 raiden (data @ our_address raiden)) =
            Some (current,
                  encode raiden (Ack (our_address raiden)
                                   (sha3 raiden (data @ our_address raiden))))"
    if d: "discovery sender' = Inr current" for discovery current
    using receive_cached [of data "self1\<lparr>get_host_port := discovery\<rparr>" raiden host_port'
        "encode raiden (Ack (our_address raiden) (sha3 raiden (data @ our_address raiden)))"
        sender' current]
      assms(1,4) a1 d
    by simp
  with r1 c1 show ?thesis by blast
qed

lemmas receive_defs = receive_def maybe_send_ack_def maybe_send_ack_raw_def
  UDP_MAX_MESSAGE_SIZE_def Let_def handler_exceptions_def ack_exceptions_def
  then_receive_def handler_calls_of_def sent_of_def
  ex_raiden_def ex_raiden_rejecting_def ex_protocol_def ex_message_def

theorem receive_duplicate_witness:
  "handler_calls_of (receive ex_raiden ex_protocol [9]) = Inr [(ex_message, [9, 1])] \<and>
   handler_calls_of (then_receive ex_raiden (receive ex_raiden ex_protocol [9]) [9]) =
     Inr [(ex_message, [9, 1])] \<and>
   sent_of (then_receive ex_raiden (receive ex_raiden ex_protocol [9]) [9]) =
     Inr [(7, [0, 1, 9, 1]), (7, [0, 1, 9, 1])]"
proof -
  have pre: "length [9::nat] \<le> UDP_MAX_MESSAGE_SIZE"
    "receivedhashes_to_acks ex_protocol (sha3 ex_raiden ([9] @ our_address ex_raiden)) = None"
    "is_SignedMessage (decode ex_raiden [9])"
    "message_sender (decode ex_raiden [9]) = Inr [2]"
    "fst (on_message ex_raiden (host ex_protocol) (decode ex_raiden [9])
               (sha3 ex_raiden ([9] @ our_address ex_raiden))) = None"
    "isaddress ex_raiden [2]"
    "get_host_port ex_protocol [2] = Inr 7"
    by (simp_all add: receive_defs)
  have t: "\<exists>self1. receive ex_raiden ex_protocol [9] = Inr self1 \<and>
      on_message_calls self1 =
        on_message_calls ex_protocol @
          [(decode ex_raiden [9], sha3 ex_raiden ([9] @ our_address ex_raiden))]"
    using receive_duplicate [OF pre] by blast
  have e: "handler_calls_of (receive ex_raiden ex_protocol [9]) = Inr [(ex_message, [9, 1])] \<and>
   handler_calls_of (then_receive ex_raiden (receive ex_raiden ex_protocol [9]) [9]) =
     Inr [(ex_message, [9, 1])] \<and>
   sent_of (then_receive ex_raiden (receive ex_raiden ex_protocol [9]) [9]) =
     Inr [(7, [0, 1, 9, 1]), (7, [0, 1, 9, 1])]"
    by (simp add: receive_defs)
  show ?thesis
    using t e by blast
qed

text \<open>
  C8 as stated fails: when the handler raises \<open>InvalidNonce\<close> on the first receipt the
  exception is swallowed and no Ack is cached or sent, and the second receipt of the
  same bytes calls the handler again.
\<close>

theorem receive_duplicate_after_rejection:
  "handler_calls_of (receive ex_raiden_rejecting ex_protocol [9]) = Inr [(ex_message, [9, 1])] \<and>
   handler_calls_of (then_receive ex_raiden_rejecting
                       (receive ex_raiden_rejecting ex_protocol [9]) [9]) =
     Inr [(ex_message, [9, 1]), (ex_message, [9, 1])] \<and>
   sent_of (then_receive ex_raiden_rejecting
              (receive ex_raiden_rejecting ex_protocol [9]) [9]) = Inr []"
  by (simp add: receive_defs)

end
